theory Spec2Isabelle
  imports Complex_Main "HOL-Library.Word"
begin

section \<open>The orange avoider module: data model\<close>

text \<open>
  The development follows \<^verbatim>\<open>sw/airborne/modules/orange_avoider/orange_avoider.c\<close>.
  The module's header, the optimizer's header and the autopilot's headers are not part of
  the sources at hand, so the constants they define are the fields of a configuration
  record, and the external collaborators (pose provider, waypoint table, path optimizer)
  are explicit arguments or fields of the module state.

  C \<^verbatim>\<open>float\<close> and \<^verbatim>\<open>double\<close> values are modelled as real numbers: rounding and
  infinities are outside the model, and so are not-a-number values except in the presence
  test of the obstacle map, which asks for them. The 8-bit counters and indices are
  \<^typ>\<open>8 word\<close>, and a comparison of one of them with an \<^verbatim>\<open>int\<close> is made on its unsigned
  value, as the integer promotion of C does.
\<close>

type_synonym uint8_t = "8 word"

text \<open>
  A world coordinate. The source reads and writes the members \<^verbatim>\<open>x\<close> and \<^verbatim>\<open>y\<close> only; they
  are named \<open>px\<close> and \<open>py\<close> here. Modelled from the spec: the declaration of the
  coordinate type is missing, and the spec treats the fixed-point and floating
  representations as one numeric type with identity conversions.
\<close>

record EnuCoor_i =
  px :: real
  py :: real

record Obstacle =
  loc :: EnuCoor_i

text \<open>
  One inner trajectory segment: the storage of its points and its active size. The member
  \<^verbatim>\<open>size\<close> of the source is named \<open>tl_size\<close>.
\<close>

record TrajectoryList =
  inner_trajectory :: "EnuCoor_i list"
  tl_size :: uint8_t

text \<open>The buffer the optimizer returns, read by index.\<close>

record OptimizedTrajectory =
  buf :: "nat \<Rightarrow> EnuCoor_i"

text \<open>One observation of the detection message, and the message (its member \<^verbatim>\<open>size\<close> is \<open>msg_size\<close>).\<close>

record ObstacleDet =
  distance :: real
  left_heading :: real
  right_heading :: real

record ObstacleMsg =
  msg_size :: int
  obstacles :: "ObstacleDet list"

text \<open>The constants of the missing header, as parameters.\<close>

record config =
  OUTER_TRAJECTORY_LENGTH :: int
  INNER_TRAJECTORY_LENGTH :: int
  INNER_TRAJECTORY_SPACE :: int
  MAX_OBSTACLES_IN_MAP :: int

text \<open>What the pose provider answers during one call: \<^verbatim>\<open>GetPosX()\<close>, \<^verbatim>\<open>GetPosY()\<close> and the yaw.\<close>

record pose =
  GetPosX :: real
  GetPosY :: real
  psi :: real

datatype waypoint = WP_OUTER | WP_INNER

text \<open>
  The module's global variables, together with the two pieces of autopilot state the module
  writes: the waypoint table (through \<^verbatim>\<open>waypoint_move_xy_i\<close>) and the waypoint the navigation
  is told to fly to (through \<^verbatim>\<open>NavGotoWaypointHeading\<close>).
\<close>

record state =
  mse_outer :: real
  mse_inner :: real
  outer_index :: uint8_t
  inner_index :: uint8_t
  subtraj_index :: uint8_t
  trajectory_updated :: bool
  n_obstacles :: uint8_t
  obstacle_map_updated :: bool
  initialized :: bool
  outer_trajectory :: "EnuCoor_i list"
  full_trajectory :: "TrajectoryList list"
  obstacle_map :: "Obstacle list"
  waypoints :: "waypoint \<Rightarrow> EnuCoor_i"
  nav_goto :: "waypoint option"

text \<open>
  The path optimizer \<^verbatim>\<open>optimize_trajectory\<close>. Modelled from the spec: its code is missing;
  the spec describes it as a function from the obstacle map, a seed path, the current size
  and the obstacle count to a new buffer and a new size (written through the pointer).
\<close>

type_synonym optimizer =
  "Obstacle list \<Rightarrow> EnuCoor_i list \<Rightarrow> uint8_t \<Rightarrow> uint8_t \<Rightarrow> OptimizedTrajectory \<times> uint8_t"

definition zero_coor :: EnuCoor_i where
  "zero_coor = \<lparr>px = 0, py = 0\<rparr>"

text \<open>The globals as C initialises them: the scalars as declared, the arrays zeroed.\<close>

definition init_state :: "config \<Rightarrow> (waypoint \<Rightarrow> EnuCoor_i) \<Rightarrow> state" where
  "init_state cfg wps =
     \<lparr>mse_outer = 0, mse_inner = 0, outer_index = 0, inner_index = 0, subtraj_index = 0,
      trajectory_updated = False, n_obstacles = 0, obstacle_map_updated = False,
      initialized = False,
      outer_trajectory = replicate (nat (OUTER_TRAJECTORY_LENGTH cfg)) zero_coor,
      full_trajectory = replicate (nat (OUTER_TRAJECTORY_LENGTH cfg))
        \<lparr>inner_trajectory = replicate (nat (INNER_TRAJECTORY_SPACE cfg)) zero_coor,
         tl_size = 0\<rparr>,
      obstacle_map = replicate (nat (MAX_OBSTACLES_IN_MAP cfg)) \<lparr>loc = zero_coor\<rparr>,
      waypoints = wps, nav_goto = None\<rparr>"

section \<open>Conversions\<close>

text \<open>Modelled from the spec: the conversion macros are missing; the spec takes them as identity numeric conversions.\<close>

definition POS_BFP_OF_REAL :: "real \<Rightarrow> real" where
  "POS_BFP_OF_REAL v = v"

definition POS_FLOAT_OF_BFP :: "real \<Rightarrow> real" where
  "POS_FLOAT_OF_BFP v = v"

text \<open>Modelled from the spec: the macro is missing; the spec says "converted to radians".\<close>

definition RadOfDeg :: "real \<Rightarrow> real" where
  "RadOfDeg d = d * (pi / 180)"

section \<open>The obstacle map\<close>

text \<open>
  The presence test computes in C doubles and asks whether its distance is not-a-number, so
  here a double is a finite value or not-a-number; \<^verbatim>\<open>pow\<close>, the addition and \<^verbatim>\<open>sqrt\<close> hand
  a not-a-number on, a comparison with a not-a-number is false, and \<^verbatim>\<open>!=\<close> with a
  not-a-number is true.
\<close>

datatype double = Fin real | NaN

fun pow_d :: "double \<Rightarrow> nat \<Rightarrow> double" where
  "pow_d (Fin v) n = Fin (v ^ n)"
| "pow_d NaN n = NaN"

fun add_d :: "double \<Rightarrow> double \<Rightarrow> double" where
  "add_d (Fin a) (Fin b) = Fin (a + b)"
| "add_d NaN b = NaN"
| "add_d a NaN = NaN"

fun sqrt_d :: "double \<Rightarrow> double" where
  "sqrt_d (Fin v) = (if v < 0 then NaN else Fin (sqrt v))"
| "sqrt_d NaN = NaN"

fun lt_d :: "double \<Rightarrow> double \<Rightarrow> bool" where
  "lt_d (Fin a) (Fin b) = (a < b)"
| "lt_d NaN b = False"
| "lt_d a NaN = False"

fun ne_d :: "double \<Rightarrow> double \<Rightarrow> bool" where
  "ne_d (Fin a) (Fin b) = (a \<noteq> b)"
| "ne_d NaN b = True"
| "ne_d a NaN = True"

text \<open>
  The loop of \<^verbatim>\<open>checkObstaclePresence\<close> over the entries it visits, in order, with its
  early return. The conversion macro \<^verbatim>\<open>POS_FLOAT_OF_BFP\<close> is missing from the sources: it is
  the parameter \<open>fob\<close> here, a function from a coordinate difference to a double.
\<close>

definition obstacle_mse_of :: "(real \<Rightarrow> double) \<Rightarrow> Obstacle \<Rightarrow> real \<Rightarrow> real \<Rightarrow> double" where
  "obstacle_mse_of fob ob x_position y_position =
     (let error_x = fob (px (loc ob) - x_position);
          error_y = fob (py (loc ob) - y_position)
      in sqrt_d (add_d (pow_d error_x 2) (pow_d error_y 2)))"

primrec presence_scan :: "(real \<Rightarrow> double) \<Rightarrow> Obstacle list \<Rightarrow> real \<Rightarrow> real \<Rightarrow> bool" where
  "presence_scan fob [] x_position y_position = False"
| "presence_scan fob (ob # obs) x_position y_position =
     (let obstacle_mse = obstacle_mse_of fob ob x_position y_position
      in if lt_d obstacle_mse (Fin 1) \<or> ne_d obstacle_mse obstacle_mse then True
         else presence_scan fob obs x_position y_position)"

definition checkObstaclePresence ::
  "(real \<Rightarrow> double) \<Rightarrow> state \<Rightarrow> Obstacle list \<Rightarrow> real \<Rightarrow> real \<Rightarrow> bool" where
  "checkObstaclePresence fob st obstacle_map_check x_position y_position =
     presence_scan fob (take (unat (n_obstacles st)) obstacle_map_check) x_position y_position"

text \<open>
  The conversion as the sessions below use it. Modelled from the spec: an identity numeric
  conversion, so its value is the finite double of the same number.
\<close>

definition float_value :: "real \<Rightarrow> double" where
  "float_value v = Fin (POS_FLOAT_OF_BFP v)"

section \<open>The ingestion callback\<close>

text \<open>The zero-distance substitution, written back into the message.\<close>

definition fix_distance :: "ObstacleDet \<Rightarrow> ObstacleDet" where
  "fix_distance ob = (if distance ob = 0 then ob\<lparr>distance := 0.5\<rparr> else ob)"

definition absolute_position :: "pose \<Rightarrow> ObstacleDet \<Rightarrow> EnuCoor_i" where
  "absolute_position p ob =
     (let heading = RadOfDeg ((left_heading ob + right_heading ob) / 2)
      in \<lparr>px = POS_BFP_OF_REAL (GetPosX p + sin (heading + psi p) * distance ob),
          py = POS_BFP_OF_REAL (GetPosY p + cos (heading + psi p) * distance ob)\<rparr>)"

text \<open>
  The branch that adds a slot: the count is incremented first, then the slot at the new
  count minus one (an \<^verbatim>\<open>int\<close>) is written. When the 8-bit count wraps from 255 to 0 that
  index is -1, outside the array, where C leaves the behaviour undefined: the model
  writes nothing there.
\<close>

definition add_obstacle :: "EnuCoor_i \<Rightarrow> state \<Rightarrow> state" where
  "add_obstacle pos st =
     (let n = n_obstacles st + 1;
          slot = uint n - 1;
          ob = (obstacle_map st) ! nat slot;
          ob1 = ob\<lparr>loc := (loc ob)\<lparr>px := px pos\<rparr>\<rparr>;
          ob2 = ob1\<lparr>loc := (loc ob1)\<lparr>py := py pos\<rparr>\<rparr>
      in st\<lparr>n_obstacles := n,
            obstacle_map := (if 0 \<le> slot then (obstacle_map st)[nat slot := ob2]
                             else obstacle_map st),
            obstacle_map_updated := True\<rparr>)"

text \<open>
  The insertion proper: the presence check, the capacity check, the append; first for any
  conversion, then with the conversion of the sessions.
\<close>

definition try_insert_with :: "(real \<Rightarrow> double) \<Rightarrow> config \<Rightarrow> EnuCoor_i \<Rightarrow> state \<Rightarrow> state" where
  "try_insert_with fob cfg pos st =
     (let obstacle_already_in = checkObstaclePresence fob st (obstacle_map st) (px pos) (py pos)
      in if \<not> obstacle_already_in \<and> uint (n_obstacles st) < MAX_OBSTACLES_IN_MAP cfg
         then add_obstacle pos st else st)"

definition try_insert :: "config \<Rightarrow> EnuCoor_i \<Rightarrow> state \<Rightarrow> state" where
  "try_insert cfg pos st = try_insert_with float_value cfg pos st"

text \<open>One iteration of the callback's loop, at index \<open>i\<close> of the message.\<close>

definition cb_iter :: "config \<Rightarrow> pose \<Rightarrow> nat \<Rightarrow> state \<times> ObstacleMsg \<Rightarrow> state \<times> ObstacleMsg" where
  "cb_iter cfg p i sm =
     (let st = fst sm;
          msg = snd sm;
          msg1 = msg\<lparr>obstacles := (obstacles msg)[i := fix_distance (obstacles msg ! i)]\<rparr>;
          ob = obstacles msg1 ! i;
          obstacle_mse = sqrt ((distance ob) ^ 2 + (left_heading ob) ^ 2 + (right_heading ob) ^ 2)
      in if obstacle_mse \<ge> 0
         then (try_insert cfg (absolute_position p ob) st, msg1)
         else (st, msg1))"

definition color_detection_cb :: "config \<Rightarrow> pose \<Rightarrow> ObstacleMsg \<Rightarrow> state \<Rightarrow> state \<times> ObstacleMsg" where
  "color_detection_cb cfg p msg st =
     foldl (\<lambda>sm i. cb_iter cfg p i sm) (st, msg) [0 ..< nat (msg_size msg)]"

section \<open>The trajectory builders\<close>

text \<open>
  \<^verbatim>\<open>buildOuterTrajectory\<close>: the two five-element lists (C zero-fills the elements the
  initialiser leaves out), and the loop that stores the first
  \<^verbatim>\<open>OUTER_TRAJECTORY_LENGTH\<close> of them.
\<close>

definition rx_list :: "pose \<Rightarrow> real list" where
  "rx_list p = [GetPosX p, 2, 2, 0, 0]"

definition ry_list :: "pose \<Rightarrow> real list" where
  "ry_list p = [GetPosY p, 2, - 2, 0, 0]"

definition buildOuterTrajectory :: "config \<Rightarrow> pose \<Rightarrow> state \<Rightarrow> state" where
  "buildOuterTrajectory cfg p st =
     foldl (\<lambda>s i. s\<lparr>outer_trajectory := (outer_trajectory s)
                      [i := \<lparr>px = POS_BFP_OF_REAL (rx_list p ! i),
                             py = POS_BFP_OF_REAL (ry_list p ! i)\<rparr>]\<rparr>)
       st [0 ..< nat (OUTER_TRAJECTORY_LENGTH cfg)]"

text \<open>Writing point \<open>i\<close> of segment \<open>k\<close> of the full trajectory.\<close>

definition set_inner_point :: "nat \<Rightarrow> nat \<Rightarrow> EnuCoor_i \<Rightarrow> state \<Rightarrow> state" where
  "set_inner_point k i v st =
     (let seg = full_trajectory st ! k
      in st\<lparr>full_trajectory := (full_trajectory st)
              [k := seg\<lparr>inner_trajectory := (inner_trajectory seg)[i := v]\<rparr>]\<rparr>)"

text \<open>\<^verbatim>\<open>buildInnerTrajectory\<close>: the straight line from an outer point to the next one (the first one after the last).\<close>

definition buildInnerTrajectory :: "config \<Rightarrow> uint8_t \<Rightarrow> state \<Rightarrow> state" where
  "buildInnerTrajectory cfg outer_index_bt st =
     (let actual_index = (if uint outer_index_bt = OUTER_TRAJECTORY_LENGTH cfg - 1
                          then 0 else outer_index_bt + 1);
          x_diff = POS_FLOAT_OF_BFP (px (outer_trajectory st ! unat actual_index))
                   - POS_FLOAT_OF_BFP (px (outer_trajectory st ! unat outer_index_bt));
          y_diff = POS_FLOAT_OF_BFP (py (outer_trajectory st ! unat actual_index))
                   - POS_FLOAT_OF_BFP (py (outer_trajectory st ! unat outer_index_bt));
          increment_x = x_diff / real_of_int (INNER_TRAJECTORY_LENGTH cfg);
          increment_y = y_diff / real_of_int (INNER_TRAJECTORY_LENGTH cfg)
      in foldl (\<lambda>s i. set_inner_point (unat outer_index_bt) i
                  \<lparr>px = POS_BFP_OF_REAL (real (i + 1) * increment_x
                          + POS_FLOAT_OF_BFP (px (outer_trajectory s ! unat outer_index_bt))),
                   py = POS_BFP_OF_REAL (real (i + 1) * increment_y
                          + POS_FLOAT_OF_BFP (py (outer_trajectory s ! unat outer_index_bt)))\<rparr> s)
           st [0 ..< nat (INNER_TRAJECTORY_LENGTH cfg)])"

text \<open>
  The point \<^verbatim>\<open>buildInnerTrajectory\<close> stores at index \<open>i\<close> of segment \<open>b\<close>, read off its loop
  body with the index of the next outer point written as a remainder, and the segment the
  whole loop leaves behind.
\<close>

definition line_point :: "config \<Rightarrow> EnuCoor_i list \<Rightarrow> nat \<Rightarrow> nat \<Rightarrow> EnuCoor_i" where
  "line_point cfg ot b i =
     (let a = ot ! b; c = ot ! ((b + 1) mod nat (OUTER_TRAJECTORY_LENGTH cfg))
      in \<lparr>px = real (i + 1) * ((px c - px a) / real_of_int (INNER_TRAJECTORY_LENGTH cfg)) + px a,
          py = real (i + 1) * ((py c - py a) / real_of_int (INNER_TRAJECTORY_LENGTH cfg)) + py a\<rparr>)"

definition line_segment :: "config \<Rightarrow> EnuCoor_i list \<Rightarrow> nat \<Rightarrow> TrajectoryList \<Rightarrow> TrajectoryList" where
  "line_segment cfg ot i seg =
     seg\<lparr>inner_trajectory :=
           map (\<lambda>j. if j < nat (INNER_TRAJECTORY_LENGTH cfg) then line_point cfg ot i j
                     else inner_trajectory seg ! j)
             [0 ..< length (inner_trajectory seg)]\<rparr>"

section \<open>The trajectory optimizer adapter\<close>

text \<open>
  \<^verbatim>\<open>updateTrajectory\<close>. Its pointer arguments \<^verbatim>\<open>start_trajectory\<close> and \<^verbatim>\<open>size\<close> point into
  segment \<open>j\<close> of the full trajectory at both call sites, so the argument here is \<open>j\<close>; the
  optimizer writes the new size through the pointer, and the loop reads it back at every
  iteration. The points are written to the segment \<^verbatim>\<open>subtraj_index\<close> names. The clock
  readings and the printing are left out.
\<close>

definition ut_iter :: "OptimizedTrajectory \<Rightarrow> nat \<Rightarrow> state \<Rightarrow> nat \<Rightarrow> state" where
  "ut_iter new_inner j st i =
     (if int i < uint (tl_size (full_trajectory st ! j))
      then set_inner_point (unat (subtraj_index st)) i
             \<lparr>px = px (buf new_inner i), py = py (buf new_inner i)\<rparr> st
      else set_inner_point (unat (subtraj_index st)) i \<lparr>px = 0, py = 0\<rparr> st)"

definition updateTrajectory :: "config \<Rightarrow> optimizer \<Rightarrow> nat \<Rightarrow> state \<Rightarrow> bool \<times> state" where
  "updateTrajectory cfg optimize_trajectory j st =
     (let seg = full_trajectory st ! j;
          res = optimize_trajectory (obstacle_map st) (inner_trajectory seg) (tl_size seg)
                  (n_obstacles st);
          new_inner = fst res;
          st1 = st\<lparr>full_trajectory := (full_trajectory st)[j := seg\<lparr>tl_size := snd res\<rparr>]\<rparr>
      in (True, foldl (ut_iter new_inner j) st1 [0 ..< nat (INNER_TRAJECTORY_SPACE cfg)]))"

text \<open>The point one iteration of that loop stores at index \<open>i\<close> when the size is \<open>S\<close>.\<close>

definition ut_point :: "OptimizedTrajectory \<Rightarrow> uint8_t \<Rightarrow> nat \<Rightarrow> EnuCoor_i" where
  "ut_point b S i = (if int i < uint S then buf b i else \<lparr>px = 0, py = 0\<rparr>)"

section \<open>The navigation state machine\<close>

text \<open>
  Modelled from the spec: the waypoint primitives \<^verbatim>\<open>WaypointX\<close>, \<^verbatim>\<open>WaypointY\<close> and
  \<^verbatim>\<open>waypoint_move_xy_i\<close> are missing; the spec says the move primitive repositions the
  named navigation target, and the readers return its position.
\<close>

definition WaypointX :: "state \<Rightarrow> waypoint \<Rightarrow> real" where
  "WaypointX st w = POS_FLOAT_OF_BFP (px (waypoints st w))"

definition WaypointY :: "state \<Rightarrow> waypoint \<Rightarrow> real" where
  "WaypointY st w = POS_FLOAT_OF_BFP (py (waypoints st w))"

definition waypoint_move_xy_i :: "waypoint \<Rightarrow> real \<Rightarrow> real \<Rightarrow> state \<Rightarrow> state" where
  "waypoint_move_xy_i w new_x new_y st =
     st\<lparr>waypoints := (waypoints st)(w := \<lparr>px = new_x, py = new_y\<rparr>)\<rparr>"

definition moveWaypoint :: "waypoint \<Rightarrow> EnuCoor_i \<Rightarrow> state \<Rightarrow> state" where
  "moveWaypoint w new_coor st = waypoint_move_xy_i w (px new_coor) (py new_coor) st"

definition moveWaypointNext :: "waypoint \<Rightarrow> EnuCoor_i list \<Rightarrow> uint8_t \<Rightarrow> state \<Rightarrow> state" where
  "moveWaypointNext w trajectory index_current_waypoint st =
     moveWaypoint w (trajectory ! unat index_current_waypoint) st"

definition checkWaypointArrival :: "pose \<Rightarrow> waypoint \<Rightarrow> state \<Rightarrow> real" where
  "checkWaypointArrival p waypoint_target st =
     (let error_x = GetPosX p - WaypointX st waypoint_target;
          error_y = GetPosY p - WaypointY st waypoint_target
      in sqrt (error_x ^ 2 + error_y ^ 2))"

text \<open>The blocks of \<^verbatim>\<open>orange_avoider_periodic\<close>, in the order of the source.\<close>

definition periodic_init :: "config \<Rightarrow> pose \<Rightarrow> state \<Rightarrow> state" where
  "periodic_init cfg p st =
     (if \<not> initialized st then
        (let st1 = foldl (\<lambda>s i. s\<lparr>full_trajectory := (full_trajectory s)
                            [i := (full_trajectory s ! i)
                                    \<lparr>tl_size := word_of_int (INNER_TRAJECTORY_LENGTH cfg)\<rparr>]\<rparr>)
                     st [0 ..< nat (OUTER_TRAJECTORY_LENGTH cfg)];
             st2 = buildOuterTrajectory cfg p st1;
             st3 = foldl (\<lambda>s i. buildInnerTrajectory cfg (of_nat i) s)
                     st2 [0 ..< nat (OUTER_TRAJECTORY_LENGTH cfg)]
         in st3\<lparr>initialized := True\<rparr>)
      else st)"

definition periodic_arrival :: "pose \<Rightarrow> state \<Rightarrow> state" where
  "periodic_arrival p st =
     (let st1 = st\<lparr>mse_outer := checkWaypointArrival p WP_OUTER st\<rparr>
      in st1\<lparr>mse_inner := checkWaypointArrival p WP_INNER st1\<rparr>)"

definition periodic_dirty :: "config \<Rightarrow> optimizer \<Rightarrow> state \<Rightarrow> state" where
  "periodic_dirty cfg opt st =
     (if obstacle_map_updated st
      then (snd (updateTrajectory cfg opt (unat (subtraj_index st)) st))
             \<lparr>obstacle_map_updated := False\<rparr>
      else st)"

definition periodic_inner :: "state \<Rightarrow> state" where
  "periodic_inner st =
     (if mse_inner st < 0.5 \<and> trajectory_updated st then
        (let st1 = moveWaypointNext WP_INNER
                     (inner_trajectory (full_trajectory st ! unat (subtraj_index st)))
                     (inner_index st) st
         in if uint (inner_index st1)
                 < uint (tl_size (full_trajectory st1 ! unat (subtraj_index st1))) - 1
            then st1\<lparr>inner_index := inner_index st1 + 1\<rparr>
            else st1)
      else st)"

text \<open>The outer block: the index bookkeeping first, then the waypoint move and the rebuild.\<close>

definition advance_outer :: "config \<Rightarrow> state \<Rightarrow> state" where
  "advance_outer cfg st =
     (let st1 = (if uint (outer_index st) < OUTER_TRAJECTORY_LENGTH cfg - 1
                 then st\<lparr>outer_index := outer_index st + 1,
                         subtraj_index := (outer_index st + 1) - 1\<rparr>
                 else st\<lparr>outer_index := 0,
                         subtraj_index := word_of_int (OUTER_TRAJECTORY_LENGTH cfg - 1)\<rparr>)
      in st1\<lparr>inner_index := 0\<rparr>)"

definition periodic_outer :: "config \<Rightarrow> optimizer \<Rightarrow> state \<Rightarrow> state" where
  "periodic_outer cfg opt st =
     (if mse_outer st < 0.5 then
        (let st2 = advance_outer cfg st;
             st3 = moveWaypointNext WP_OUTER (outer_trajectory st2) (outer_index st2) st2;
             r = updateTrajectory cfg opt (unat (subtraj_index st3)) st3
         in (snd r)\<lparr>trajectory_updated := fst r\<rparr>)
      else st)"

text \<open>The state on which the outer block of a tick runs: after the first four blocks.\<close>

definition before_outer :: "config \<Rightarrow> optimizer \<Rightarrow> pose \<Rightarrow> state \<Rightarrow> state" where
  "before_outer cfg opt p st =
     periodic_inner (periodic_dirty cfg opt (periodic_arrival p (periodic_init cfg p st)))"

definition orange_avoider_periodic :: "config \<Rightarrow> optimizer \<Rightarrow> pose \<Rightarrow> state \<Rightarrow> state" where
  "orange_avoider_periodic cfg opt p st =
     (periodic_outer cfg opt (before_outer cfg opt p st))\<lparr>nav_goto := Some WP_INNER\<rparr>"

section \<open>Sessions\<close>

text \<open>
  A session is a sequence of executions of the two entry points, each run to its end before
  the next starts: a periodic tick with the pose it reads, or a detection message with the
  pose the callback reads. The callback's write-back into the message is dropped here.
\<close>

datatype event = Tick pose | Detection pose ObstacleMsg

fun step :: "config \<Rightarrow> optimizer \<Rightarrow> state \<Rightarrow> event \<Rightarrow> state" where
  "step cfg opt st (Tick p) = orange_avoider_periodic cfg opt p st"
| "step cfg opt st (Detection p msg) = fst (color_detection_cb cfg p msg st)"

definition run :: "config \<Rightarrow> optimizer \<Rightarrow> state \<Rightarrow> event list \<Rightarrow> state" where
  "run cfg opt st evs = foldl (step cfg opt) st evs"

text \<open>The callback's loop stopped after its first \<open>k\<close> iterations.\<close>

definition cb_prefix :: "config \<Rightarrow> pose \<Rightarrow> ObstacleMsg \<Rightarrow> state \<Rightarrow> nat \<Rightarrow> state \<times> ObstacleMsg" where
  "cb_prefix cfg p msg st k = foldl (\<lambda>sm i. cb_iter cfg p i sm) (st, msg) [0 ..< k]"

section \<open>Concrete inputs\<close>

text \<open>
  A small configuration, a pose at the origin with zero yaw, detections straight ahead at a
  given distance, and an optimizer that always answers two points.
\<close>

definition cfg_ex :: config where
  "cfg_ex = \<lparr>OUTER_TRAJECTORY_LENGTH = 3, INNER_TRAJECTORY_LENGTH = 2,
             INNER_TRAJECTORY_SPACE = 3, MAX_OBSTACLES_IN_MAP = 2\<rparr>"

definition pose_ex :: pose where
  "pose_ex = \<lparr>GetPosX = 0, GetPosY = 0, psi = 0\<rparr>"

definition det_ex :: "real \<Rightarrow> ObstacleDet" where
  "det_ex d = \<lparr>distance = d, left_heading = - 30, right_heading = 30\<rparr>"

definition msg_ex :: "real list \<Rightarrow> ObstacleMsg" where
  "msg_ex ds = \<lparr>msg_size = int (length ds), obstacles = map det_ex ds\<rparr>"

definition st_ex :: state where
  "st_ex = init_state cfg_ex (\<lambda>w. zero_coor)"

definition opt_ex :: optimizer where
  "opt_ex m tr sz n = (\<lparr>buf = (\<lambda>i. \<lparr>px = 1, py = real i\<rparr>)\<rparr>, 2)"

text \<open>
  A pose at a given position with zero yaw, and the states a session of four ticks goes
  through from \<open>st_ex\<close>: at the origin twice, then at (2, 2), then at (2, -2).
\<close>

definition pose_at :: "real \<Rightarrow> real \<Rightarrow> pose" where
  "pose_at x y = \<lparr>GetPosX = x, GetPosY = y, psi = 0\<rparr>"

definition st_t1 :: state where
  "st_t1 =
  \<lparr>mse_outer = 0, mse_inner = 0, outer_index = 1, inner_index = 0, subtraj_index = 0,
   trajectory_updated = True, n_obstacles = 0, obstacle_map_updated = False,
   initialized = True,
   outer_trajectory = [\<lparr>px = 0, py = 0\<rparr>, \<lparr>px = 2, py = 2\<rparr>, \<lparr>px = 2, py = - 2\<rparr>],
   full_trajectory =
     [\<lparr>inner_trajectory = [\<lparr>px = 1, py = 0\<rparr>, \<lparr>px = 1, py = 1\<rparr>, \<lparr>px = 0, py = 0\<rparr>], tl_size = 2\<rparr>,
      \<lparr>inner_trajectory = [\<lparr>px = 2, py = 0\<rparr>, \<lparr>px = 2, py = - 2\<rparr>, \<lparr>px = 0, py = 0\<rparr>], tl_size = 2\<rparr>,
      \<lparr>inner_trajectory = [\<lparr>px = 1, py = - 1\<rparr>, \<lparr>px = 0, py = 0\<rparr>, \<lparr>px = 0, py = 0\<rparr>], tl_size = 2\<rparr>],
   obstacle_map = [\<lparr>loc = \<lparr>px = 0, py = 0\<rparr>\<rparr>, \<lparr>loc = \<lparr>px = 0, py = 0\<rparr>\<rparr>],
   waypoints = (\<lambda>w. \<lparr>px = 0, py = 0\<rparr>)(WP_OUTER := \<lparr>px = 2, py = 2\<rparr>),
   nav_goto = Some WP_INNER\<rparr>"




text \<open>
  An optimizer that always answers the size 0, an initial state whose inner waypoint lies
  at (5, 5), and the state after a first tick at the origin with that optimizer.
\<close>

definition opt_zero :: optimizer where
  "opt_zero m tr sz n = (\<lparr>buf = (\<lambda>i. \<lparr>px = 7, py = 7\<rparr>)\<rparr>, 0)"

definition st_z0 :: state where
  "st_z0 = init_state cfg_ex ((\<lambda>w. \<lparr>px = 0, py = 0\<rparr>)(WP_INNER := \<lparr>px = 5, py = 5\<rparr>))"

definition st_z1 :: state where
  "st_z1 =
  \<lparr>mse_outer = 0, mse_inner = sqrt 50, outer_index = 1, inner_index = 0, subtraj_index = 0,
   trajectory_updated = True, n_obstacles = 0, obstacle_map_updated = False,
   initialized = True,
   outer_trajectory = [\<lparr>px = 0, py = 0\<rparr>, \<lparr>px = 2, py = 2\<rparr>, \<lparr>px = 2, py = - 2\<rparr>],
   full_trajectory =
     [\<lparr>inner_trajectory = [\<lparr>px = 0, py = 0\<rparr>, \<lparr>px = 0, py = 0\<rparr>, \<lparr>px = 0, py = 0\<rparr>], tl_size = 0\<rparr>,
      \<lparr>inner_trajectory = [\<lparr>px = 2, py = 0\<rparr>, \<lparr>px = 2, py = - 2\<rparr>, \<lparr>px = 0, py = 0\<rparr>], tl_size = 2\<rparr>,
      \<lparr>inner_trajectory = [\<lparr>px = 1, py = - 1\<rparr>, \<lparr>px = 0, py = 0\<rparr>, \<lparr>px = 0, py = 0\<rparr>], tl_size = 2\<rparr>],
   obstacle_map = [\<lparr>loc = \<lparr>px = 0, py = 0\<rparr>\<rparr>, \<lparr>loc = \<lparr>px = 0, py = 0\<rparr>\<rparr>],
   waypoints = (\<lambda>w. \<lparr>px = 0, py = 0\<rparr>)(WP_INNER := \<lparr>px = 5, py = 5\<rparr>, WP_OUTER := \<lparr>px = 2, py = 2\<rparr>),
   nav_goto = Some WP_INNER\<rparr>"

section \<open>Auxiliary facts\<close>

lemma obstacle_mse_test:
  "lt_d (obstacle_mse_of fob ob x y) (Fin 1)
     \<or> ne_d (obstacle_mse_of fob ob x y) (obstacle_mse_of fob ob x y) \<longleftrightarrow>
   (case fob (px (loc ob) - x) of NaN \<Rightarrow> True
    | Fin ex \<Rightarrow> (case fob (py (loc ob) - y) of NaN \<Rightarrow> True
                 | Fin ey \<Rightarrow> sqrt (ex\<^sup>2 + ey\<^sup>2) < 1))"
  by (cases "fob (px (loc ob) - x)"; cases "fob (py (loc ob) - y)")
     (simp_all add: obstacle_mse_of_def Let_def not_sum_power2_lt_zero del: real_sqrt_lt_1_iff)

lemma presence_scan_iff:
  "presence_scan fob obs x y \<longleftrightarrow>
     (\<exists>ob \<in> set obs.
        (case fob (px (loc ob) - x) of NaN \<Rightarrow> True
         | Fin ex \<Rightarrow> (case fob (py (loc ob) - y) of NaN \<Rightarrow> True
                      | Fin ey \<Rightarrow> sqrt (ex\<^sup>2 + ey\<^sup>2) < 1)))"
proof (induction obs)
  case Nil
  show ?case by simp
next
  case (Cons ob obs)
  show ?case
    unfolding presence_scan.simps Let_def obstacle_mse_test Cons.IH by auto
qed

lemma checkObstaclePresence_iff:
  "checkObstaclePresence fob st m x y \<longleftrightarrow>
     (\<exists>ob \<in> set (take (unat (n_obstacles st)) m).
        (case fob (px (loc ob) - x) of NaN \<Rightarrow> True
         | Fin ex \<Rightarrow> (case fob (py (loc ob) - y) of NaN \<Rightarrow> True
                      | Fin ey \<Rightarrow> sqrt (ex\<^sup>2 + ey\<^sup>2) < 1)))"
  unfolding checkObstaclePresence_def by (rule presence_scan_iff)

lemma checkObstaclePresence_float:
  "checkObstaclePresence float_value st m x y \<longleftrightarrow>
     (\<exists>ob \<in> set (take (unat (n_obstacles st)) m).
        sqrt ((px (loc ob) - x)\<^sup>2 + (py (loc ob) - y)\<^sup>2) < 1)"
  unfolding checkObstaclePresence_iff
  by (simp add: float_value_def POS_FLOAT_OF_BFP_def del: real_sqrt_lt_1_iff)

lemma obstacle_loc_update:
  "ob\<lparr>loc := (loc ob)\<lparr>px := px pos, py := py pos\<rparr>\<rparr> = \<lparr>loc = pos\<rparr>"
proof -
  obtain l where ob: "ob = \<lparr>loc = l\<rparr>" by (cases ob) auto
  obtain u v where l: "l = \<lparr>px = u, py = v\<rparr>" by (cases l) auto
  obtain a b where p: "pos = \<lparr>px = a, py = b\<rparr>" by (cases pos) auto
  show ?thesis unfolding ob l p by simp
qed

lemma uint8_succ:
  fixes n :: uint8_t
  assumes "unat n < 255"
  shows "unat (n + 1) = unat n + 1"
  using assms by (simp add: unat_word_ariths)

lemma add_obstacle_eq:
  assumes "unat (n_obstacles st) < 255"
  shows "add_obstacle pos st =
     st\<lparr>n_obstacles := n_obstacles st + 1,
        obstacle_map := (obstacle_map st)[unat (n_obstacles st) := \<lparr>loc = pos\<rparr>],
        obstacle_map_updated := True\<rparr>"
proof -
  have "uint (n_obstacles st + 1) = int (unat (n_obstacles st + 1))"
    by simp
  then have e: "uint (n_obstacles st + 1) - 1 = int (unat (n_obstacles st))"
    unfolding uint8_succ[OF assms] by simp
  show ?thesis
    unfolding add_obstacle_def Let_def e
    by (simp add: obstacle_loc_update)
qed

lemma foldl_only_ft:
  assumes "\<And>s i. \<exists>ft. f s i = s\<lparr>full_trajectory := ft\<rparr>"
  shows "\<exists>ft. foldl f s js = s\<lparr>full_trajectory := ft\<rparr>"
proof (induction js arbitrary: s)
  case Nil
  show ?case by (rule exI[of _ "full_trajectory s"]) simp
next
  case (Cons i js)
  obtain a where a: "f s i = s\<lparr>full_trajectory := a\<rparr>" using assms by blast
  obtain b where b: "foldl f (f s i) js = (f s i)\<lparr>full_trajectory := b\<rparr>" using Cons.IH by blast
  have "foldl f s (i # js) = (f s i)\<lparr>full_trajectory := b\<rparr>" by (simp add: b)
  also have "\<dots> = s\<lparr>full_trajectory := b\<rparr>" by (simp add: a)
  finally show ?case by blast
qed

lemma set_inner_point_only_ft: "\<exists>ft. set_inner_point k i v s = s\<lparr>full_trajectory := ft\<rparr>"
  unfolding set_inner_point_def Let_def by (rule exI) (rule refl)

lemma ut_iter_only_ft: "\<exists>ft. ut_iter b j s i = s\<lparr>full_trajectory := ft\<rparr>"
  by (simp add: ut_iter_def set_inner_point_only_ft)

lemma updateTrajectory_only_ft:
  "\<exists>ft. updateTrajectory cfg opt j st = (True, st\<lparr>full_trajectory := ft\<rparr>)"
proof -
  let ?seg = "full_trajectory st ! j"
  let ?res = "opt (obstacle_map st) (inner_trajectory ?seg) (tl_size ?seg) (n_obstacles st)"
  let ?st1 = "st\<lparr>full_trajectory := (full_trajectory st)[j := ?seg\<lparr>tl_size := snd ?res\<rparr>]\<rparr>"
  obtain ft where "foldl (ut_iter (fst ?res) j) ?st1 [0 ..< nat (INNER_TRAJECTORY_SPACE cfg)]
      = ?st1\<lparr>full_trajectory := ft\<rparr>"
    using foldl_only_ft[of "ut_iter (fst ?res) j", OF ut_iter_only_ft] by blast
  then have "updateTrajectory cfg opt j st = (True, st\<lparr>full_trajectory := ft\<rparr>)"
    by (simp add: updateTrajectory_def Let_def)
  then show ?thesis by blast
qed

lemma periodic_dirty_only:
  "\<exists>ft b. periodic_dirty cfg opt st = st\<lparr>full_trajectory := ft, obstacle_map_updated := b\<rparr>"
proof (cases "obstacle_map_updated st")
  case True
  obtain ft where "updateTrajectory cfg opt (unat (subtraj_index st)) st = (True, st\<lparr>full_trajectory := ft\<rparr>)"
    using updateTrajectory_only_ft by blast
  then have "periodic_dirty cfg opt st = st\<lparr>full_trajectory := ft, obstacle_map_updated := False\<rparr>"
    using True by (simp add: periodic_dirty_def)
  then show ?thesis by blast
next
  case False
  have "periodic_dirty cfg opt st = st\<lparr>full_trajectory := full_trajectory st, obstacle_map_updated := obstacle_map_updated st\<rparr>"
    using False by (simp add: periodic_dirty_def)
  then show ?thesis by blast
qed

lemma foldl_only_ot:
  assumes "\<And>s i. \<exists>ot. f s i = s\<lparr>outer_trajectory := ot\<rparr>"
  shows "\<exists>ot. foldl f s js = s\<lparr>outer_trajectory := ot\<rparr>"
proof (induction js arbitrary: s)
  case Nil
  show ?case by (rule exI[of _ "outer_trajectory s"]) simp
next
  case (Cons i js)
  obtain a where a: "f s i = s\<lparr>outer_trajectory := a\<rparr>" using assms by blast
  obtain b where b: "foldl f (f s i) js = (f s i)\<lparr>outer_trajectory := b\<rparr>" using Cons.IH by blast
  have "foldl f s (i # js) = (f s i)\<lparr>outer_trajectory := b\<rparr>" by (simp add: b)
  also have "\<dots> = s\<lparr>outer_trajectory := b\<rparr>" by (simp add: a)
  finally show ?case by blast
qed

lemma buildOuterTrajectory_only:
  "\<exists>ot. buildOuterTrajectory cfg p st = st\<lparr>outer_trajectory := ot\<rparr>"
  unfolding buildOuterTrajectory_def
  by (rule foldl_only_ot) (rule exI, rule refl)

lemma buildInnerTrajectory_only_ft:
  "\<exists>ft. buildInnerTrajectory cfg b st = st\<lparr>full_trajectory := ft\<rparr>"
  unfolding buildInnerTrajectory_def Let_def
  by (rule foldl_only_ft) (rule set_inner_point_only_ft)

lemma periodic_init_only:
  "\<exists>ft ot b. periodic_init cfg p st = st\<lparr>full_trajectory := ft, outer_trajectory := ot, initialized := b\<rparr>"
proof (cases "initialized st")
  case True
  have "periodic_init cfg p st = st\<lparr>full_trajectory := full_trajectory st,
      outer_trajectory := outer_trajectory st, initialized := initialized st\<rparr>"
    using True by (simp add: periodic_init_def)
  then show ?thesis by blast
next
  case False
  let ?f1 = "\<lambda>s i. s\<lparr>full_trajectory := (full_trajectory s)
                            [i := (full_trajectory s ! i)
                                    \<lparr>tl_size := word_of_int (INNER_TRAJECTORY_LENGTH cfg)\<rparr>]\<rparr>"
  let ?n = "[0 ..< nat (OUTER_TRAJECTORY_LENGTH cfg)]"
  have "\<And>s i. \<exists>ft. ?f1 s i = s\<lparr>full_trajectory := ft\<rparr>"
    by (rule exI) (rule refl)
  then obtain a where a: "foldl ?f1 st ?n = st\<lparr>full_trajectory := a\<rparr>"
    using foldl_only_ft[of ?f1 st ?n] by blast
  define st1 where "st1 = st\<lparr>full_trajectory := a\<rparr>"
  obtain ot where ot: "buildOuterTrajectory cfg p st1 = st1\<lparr>outer_trajectory := ot\<rparr>"
    using buildOuterTrajectory_only by blast
  define st2 where "st2 = st1\<lparr>outer_trajectory := ot\<rparr>"
  obtain b where b: "foldl (\<lambda>s i. buildInnerTrajectory cfg (of_nat i) s) st2 ?n = st2\<lparr>full_trajectory := b\<rparr>"
    using foldl_only_ft[of "\<lambda>s i. buildInnerTrajectory cfg (of_nat i) s" st2 ?n]
      buildInnerTrajectory_only_ft by blast
  have "periodic_init cfg p st = st2\<lparr>full_trajectory := b, initialized := True\<rparr>"
    using False unfolding periodic_init_def Let_def a st1_def[symmetric] ot st2_def[symmetric] b
    by simp
  then have "periodic_init cfg p st = st\<lparr>full_trajectory := b, outer_trajectory := ot, initialized := True\<rparr>"
    by (simp add: st2_def st1_def)
  then show ?thesis by blast
qed

lemma uint8_succ_le: "uint (n + 1 :: uint8_t) \<le> uint n + 1"
proof -
  have "uint (n + 1) = (uint n + 1) mod 256" by (simp add: uint_word_ariths)
  also have "\<dots> \<le> uint n + 1" by (rule zmod_le_nonneg_dividend) simp
  finally show ?thesis .
qed

lemma add_obstacle_count: "n_obstacles (add_obstacle pos st) = n_obstacles st + 1"
  by (simp add: add_obstacle_def Let_def)

lemma try_insert_bounded:
  assumes "uint (n_obstacles st) \<le> MAX_OBSTACLES_IN_MAP cfg"
  shows "uint (n_obstacles (try_insert cfg pos st)) \<le> MAX_OBSTACLES_IN_MAP cfg"
  using assms uint8_succ_le[of "n_obstacles st"]
  by (simp add: try_insert_def try_insert_with_def add_obstacle_count Let_def)

lemma try_insert_full:
  assumes "MAX_OBSTACLES_IN_MAP cfg \<le> uint (n_obstacles st)"
  shows "try_insert cfg pos st = st"
  using assms by (simp add: try_insert_def try_insert_with_def Let_def)


lemma cb_iter_fst:
  "fst (cb_iter cfg p i sm) =
     try_insert cfg (absolute_position p
        ((obstacles (snd sm))[i := fix_distance (obstacles (snd sm) ! i)] ! i)) (fst sm)"
  by (simp add: cb_iter_def Let_def)

lemma cb_fold_inv:
  assumes "\<And>pos s. P s \<Longrightarrow> P (try_insert cfg pos s)" and "P (fst sm)"
  shows "P (fst (foldl (\<lambda>sm i. cb_iter cfg p i sm) sm js))"
  using assms(2)
proof (induction js arbitrary: sm)
  case Nil
  then show ?case by simp
next
  case (Cons i js)
  have "P (fst (cb_iter cfg p i sm))"
    unfolding cb_iter_fst using Cons.prems by (rule assms(1))
  then show ?case using Cons.IH by simp
qed

lemma tick_obstacles:
  "n_obstacles (orange_avoider_periodic cfg opt p st) = n_obstacles st"
  "obstacle_map (orange_avoider_periodic cfg opt p st) = obstacle_map st"
proof -
  obtain ft1 ot1 b1 where i: "periodic_init cfg p st = st\<lparr>full_trajectory := ft1, outer_trajectory := ot1, initialized := b1\<rparr>"
    using periodic_init_only by blast
  define s1 where "s1 = periodic_arrival p (periodic_init cfg p st)"
  have s1: "n_obstacles s1 = n_obstacles st" "obstacle_map s1 = obstacle_map st"
    by (simp_all add: s1_def i periodic_arrival_def Let_def)
  obtain ft2 b2 where d: "periodic_dirty cfg opt s1 = s1\<lparr>full_trajectory := ft2, obstacle_map_updated := b2\<rparr>"
    using periodic_dirty_only by blast
  define s2 where "s2 = periodic_inner (periodic_dirty cfg opt s1)"
  have s2: "n_obstacles s2 = n_obstacles st" "obstacle_map s2 = obstacle_map st"
    by (simp_all add: s2_def d s1 periodic_inner_def Let_def moveWaypointNext_def moveWaypoint_def
        waypoint_move_xy_i_def)
  have b: "before_outer cfg opt p st = s2"
    by (simp add: before_outer_def s2_def s1_def)
  have o: "n_obstacles (periodic_outer cfg opt s2) = n_obstacles s2
         \<and> obstacle_map (periodic_outer cfg opt s2) = obstacle_map s2"
  proof (cases "mse_outer s2 < 0.5")
    case False
    then show ?thesis by (simp add: periodic_outer_def)
  next
    case True
    define s3 where "s3 = moveWaypointNext WP_OUTER (outer_trajectory (advance_outer cfg s2))
        (outer_index (advance_outer cfg s2)) (advance_outer cfg s2)"
    have s3: "n_obstacles s3 = n_obstacles s2" "obstacle_map s3 = obstacle_map s2"
      by (simp_all add: s3_def moveWaypointNext_def moveWaypoint_def waypoint_move_xy_i_def
          advance_outer_def Let_def)
    obtain ft where u: "updateTrajectory cfg opt (unat (subtraj_index s3)) s3 = (True, s3\<lparr>full_trajectory := ft\<rparr>)"
      using updateTrajectory_only_ft by blast
    have "periodic_outer cfg opt s2 = (s3\<lparr>full_trajectory := ft\<rparr>)\<lparr>trajectory_updated := True\<rparr>"
      using True unfolding periodic_outer_def Let_def s3_def[symmetric] u by simp
    then show ?thesis by (simp add: s3)
  qed
  show "n_obstacles (orange_avoider_periodic cfg opt p st) = n_obstacles st"
    by (simp add: orange_avoider_periodic_def b o s2)
  show "obstacle_map (orange_avoider_periodic cfg opt p st) = obstacle_map st"
    by (simp add: orange_avoider_periodic_def b o s2)
qed

lemma step_bounded:
  assumes "uint (n_obstacles st) \<le> MAX_OBSTACLES_IN_MAP cfg"
  shows "uint (n_obstacles (step cfg opt st e)) \<le> MAX_OBSTACLES_IN_MAP cfg"
proof (cases e)
  case (Tick p)
  then show ?thesis using assms by (simp add: tick_obstacles)
next
  case (Detection p msg)
  have "uint (n_obstacles (fst (foldl (\<lambda>sm i. cb_iter cfg p i sm) (st, msg) [0 ..< nat (msg_size msg)])))
      \<le> MAX_OBSTACLES_IN_MAP cfg"
    by (rule cb_fold_inv[where P = "\<lambda>s. uint (n_obstacles s) \<le> MAX_OBSTACLES_IN_MAP cfg"])
       (simp_all add: try_insert_bounded assms)
  then show ?thesis using Detection by (simp add: color_detection_cb_def)
qed

lemma run_bounded:
  assumes "uint (n_obstacles st) \<le> MAX_OBSTACLES_IN_MAP cfg"
  shows "uint (n_obstacles (run cfg opt st evs)) \<le> MAX_OBSTACLES_IN_MAP cfg"
  using assms unfolding run_def
  by (induction evs arbitrary: st) (simp_all add: step_bounded)

lemma cb_prefix_full:
  assumes "MAX_OBSTACLES_IN_MAP cfg \<le> uint (n_obstacles st)"
  shows "fst (cb_prefix cfg p msg st k) = st"
  unfolding cb_prefix_def
  by (rule cb_fold_inv[where P = "\<lambda>s. s = st"]) (simp_all add: try_insert_full assms)

lemmas ex_eval = run_def color_detection_cb_def msg_ex_def det_ex_def cb_iter_def Let_def
      fix_distance_def absolute_position_def RadOfDeg_def pose_ex_def POS_BFP_OF_REAL_def
      try_insert_def try_insert_with_def float_value_def checkObstaclePresence_def
      obstacle_mse_of_def POS_FLOAT_OF_BFP_def
      add_obstacle_def st_ex_def init_state_def cfg_ex_def zero_coor_def upt_rec
      eval_nat_numeral

lemma ex_run1: "run cfg_ex opt_ex st_ex [Detection pose_ex (msg_ex [1])]
   = st_ex\<lparr>n_obstacles := 1,
           obstacle_map := [\<lparr>loc = \<lparr>px = 0, py = 1\<rparr>\<rparr>, \<lparr>loc = \<lparr>px = 0, py = 0\<rparr>\<rparr>],
           obstacle_map_updated := True\<rparr>"
  by (simp add: ex_eval)

lemma ex_run2: "run cfg_ex opt_ex st_ex [Detection pose_ex (msg_ex [1, 3])]
   = st_ex\<lparr>n_obstacles := 2,
           obstacle_map := [\<lparr>loc = \<lparr>px = 0, py = 1\<rparr>\<rparr>, \<lparr>loc = \<lparr>px = 0, py = 3\<rparr>\<rparr>],
           obstacle_map_updated := True\<rparr>"
  by (simp add: ex_eval)

section \<open>The claims\<close>

lemma try_insert_with_eq:
  assumes "MAX_OBSTACLES_IN_MAP cfg \<le> 255"
  shows "try_insert_with fob cfg pos st =
     (if checkObstaclePresence fob st (obstacle_map st) (px pos) (py pos) then st
      else if uint (n_obstacles st) < MAX_OBSTACLES_IN_MAP cfg
      then st\<lparr>n_obstacles := n_obstacles st + 1,
              obstacle_map := (obstacle_map st)[unat (n_obstacles st) := \<lparr>loc = pos\<rparr>],
              obstacle_map_updated := True\<rparr>
      else st)"
proof -
  have "unat (n_obstacles st) < 255" if "uint (n_obstacles st) < MAX_OBSTACLES_IN_MAP cfg"
  proof -
    have "uint (n_obstacles st) < 255" using that assms by linarith
    then show ?thesis unfolding unat_eq_nat_uint by linarith
  qed
  then show ?thesis
    by (simp add: try_insert_with_def add_obstacle_eq)
qed

text \<open>
  C1. Inserting a position into the obstacle map, for any conversion of a coordinate
  difference to a double: when for an obstacle already in the map the distance computation
  yields not-a-number (one of the two converted differences is not-a-number), or yields a
  Euclidean distance less than 1, nothing changes (the map, the count and the dirty flag
  are as before); otherwise, when the count is below the capacity, the position is stored
  in the slot after the last one, the count grows by exactly one and the dirty flag is set;
  otherwise nothing changes. With the identity conversion of the sessions no distance is
  not-a-number, and the test is the Euclidean distance of the two positions being less
  than 1. The count is 8 bits wide, so the capacity is taken to fit into it.
\<close>

theorem try_insert_cases:
  assumes cap: "MAX_OBSTACLES_IN_MAP cfg \<le> 255"
  shows "try_insert_with fob cfg pos st =
     (if (\<exists>ob \<in> set (take (unat (n_obstacles st)) (obstacle_map st)).
            (case fob (px (loc ob) - px pos) of NaN \<Rightarrow> True
             | Fin ex \<Rightarrow> (case fob (py (loc ob) - py pos) of NaN \<Rightarrow> True
                          | Fin ey \<Rightarrow> sqrt (ex\<^sup>2 + ey\<^sup>2) < 1)))
      then st
      else if uint (n_obstacles st) < MAX_OBSTACLES_IN_MAP cfg
      then st\<lparr>n_obstacles := n_obstacles st + 1,
              obstacle_map := (obstacle_map st)[unat (n_obstacles st) := \<lparr>loc = pos\<rparr>],
              obstacle_map_updated := True\<rparr>
      else st)
   \<and> try_insert cfg pos st =
     (if (\<exists>ob \<in> set (take (unat (n_obstacles st)) (obstacle_map st)).
            sqrt ((px (loc ob) - px pos)\<^sup>2 + (py (loc ob) - py pos)\<^sup>2) < 1)
      then st
      else if uint (n_obstacles st) < MAX_OBSTACLES_IN_MAP cfg
      then st\<lparr>n_obstacles := n_obstacles st + 1,
              obstacle_map := (obstacle_map st)[unat (n_obstacles st) := \<lparr>loc = pos\<rparr>],
              obstacle_map_updated := True\<rparr>
      else st)
   \<and> (uint (n_obstacles st) < MAX_OBSTACLES_IN_MAP cfg \<longrightarrow>
        unat (n_obstacles st + 1) = unat (n_obstacles st) + 1)"
proof -
  have small: "unat (n_obstacles st) < 255" if "uint (n_obstacles st) < MAX_OBSTACLES_IN_MAP cfg"
  proof -
    have "uint (n_obstacles st) < 255" using that cap by linarith
    then show ?thesis unfolding unat_eq_nat_uint by linarith
  qed
  have 1: "try_insert_with fob cfg pos st =
     (if (\<exists>ob \<in> set (take (unat (n_obstacles st)) (obstacle_map st)).
            (case fob (px (loc ob) - px pos) of NaN \<Rightarrow> True
             | Fin ex \<Rightarrow> (case fob (py (loc ob) - py pos) of NaN \<Rightarrow> True
                          | Fin ey \<Rightarrow> sqrt (ex\<^sup>2 + ey\<^sup>2) < 1)))
      then st
      else if uint (n_obstacles st) < MAX_OBSTACLES_IN_MAP cfg
      then st\<lparr>n_obstacles := n_obstacles st + 1,
              obstacle_map := (obstacle_map st)[unat (n_obstacles st) := \<lparr>loc = pos\<rparr>],
              obstacle_map_updated := True\<rparr>
      else st)"
    unfolding try_insert_with_eq[OF cap] checkObstaclePresence_iff ..
  have 2: "try_insert cfg pos st =
     (if (\<exists>ob \<in> set (take (unat (n_obstacles st)) (obstacle_map st)).
            sqrt ((px (loc ob) - px pos)\<^sup>2 + (py (loc ob) - py pos)\<^sup>2) < 1)
      then st
      else if uint (n_obstacles st) < MAX_OBSTACLES_IN_MAP cfg
      then st\<lparr>n_obstacles := n_obstacles st + 1,
              obstacle_map := (obstacle_map st)[unat (n_obstacles st) := \<lparr>loc = pos\<rparr>],
              obstacle_map_updated := True\<rparr>
      else st)"
    unfolding try_insert_def try_insert_with_eq[OF cap] checkObstaclePresence_float ..
  have 3: "unat (n_obstacles st + 1) = unat (n_obstacles st) + 1"
    if "uint (n_obstacles st) < MAX_OBSTACLES_IN_MAP cfg"
    using small[OF that] by (rule uint8_succ)
  show ?thesis using 1 2 3 by blast
qed

text \<open>
  With one obstacle stored at (0, 1) and capacity 2: under the identity conversion the
  position (0.5, 1) is rejected and the position (0, 3) is appended; under a conversion
  whose value is always not-a-number the position (0, 3) is rejected.
\<close>

theorem try_insert_cases_witness:
  "MAX_OBSTACLES_IN_MAP cfg_ex \<le> 255
   \<and> try_insert cfg_ex \<lparr>px = 0.5, py = 1\<rparr> (run cfg_ex opt_ex st_ex [Detection pose_ex (msg_ex [1])])
       = run cfg_ex opt_ex st_ex [Detection pose_ex (msg_ex [1])]
   \<and> try_insert cfg_ex \<lparr>px = 0, py = 3\<rparr> (run cfg_ex opt_ex st_ex [Detection pose_ex (msg_ex [1])])
       = st_ex\<lparr>n_obstacles := 2,
           obstacle_map := [\<lparr>loc = \<lparr>px = 0, py = 1\<rparr>\<rparr>, \<lparr>loc = \<lparr>px = 0, py = 3\<rparr>\<rparr>],
           obstacle_map_updated := True\<rparr>
   \<and> try_insert_with (\<lambda>v. NaN) cfg_ex \<lparr>px = 0, py = 3\<rparr>
         (run cfg_ex opt_ex st_ex [Detection pose_ex (msg_ex [1])])
       = run cfg_ex opt_ex st_ex [Detection pose_ex (msg_ex [1])]"
proof -
  have c: "MAX_OBSTACLES_IN_MAP cfg_ex \<le> 255" by (simp add: cfg_ex_def)
  show ?thesis
    using try_insert_cases[OF c, of float_value "\<lparr>px = 0.5, py = 1\<rparr>"
            "run cfg_ex opt_ex st_ex [Detection pose_ex (msg_ex [1])]"]
          try_insert_cases[OF c, of float_value "\<lparr>px = 0, py = 3\<rparr>"
            "run cfg_ex opt_ex st_ex [Detection pose_ex (msg_ex [1])]"]
          try_insert_cases[OF c, of "\<lambda>v. NaN" "\<lparr>px = 0, py = 3\<rparr>"
            "run cfg_ex opt_ex st_ex [Detection pose_ex (msg_ex [1])]"]
    unfolding ex_run1 by (simp add: cfg_ex_def st_ex_def init_state_def)
qed

text \<open>
  C4. In every state a session reaches from the initial one, and after any number of
  iterations of a callback started there, the obstacle count is at most the capacity; and
  when the count equals the capacity, a callback leaves the whole state as it is, whatever
  the message holds.
\<close>

theorem obstacle_count_bounded:
  assumes "0 \<le> MAX_OBSTACLES_IN_MAP cfg"
      and "st = run cfg opt (init_state cfg wps) evs"
  shows "uint (n_obstacles st) \<le> MAX_OBSTACLES_IN_MAP cfg
       \<and> uint (n_obstacles (fst (cb_prefix cfg p msg st k))) \<le> MAX_OBSTACLES_IN_MAP cfg
       \<and> (uint (n_obstacles st) = MAX_OBSTACLES_IN_MAP cfg \<longrightarrow>
            fst (cb_prefix cfg p msg st k) = st
          \<and> fst (color_detection_cb cfg p msg st) = st)"
proof -
  have "uint (n_obstacles (init_state cfg wps)) \<le> MAX_OBSTACLES_IN_MAP cfg"
    using assms(1) by (simp add: init_state_def)
  then have b: "uint (n_obstacles st) \<le> MAX_OBSTACLES_IN_MAP cfg"
    unfolding assms(2) by (rule run_bounded)
  have "uint (n_obstacles (fst (cb_prefix cfg p msg st k))) \<le> MAX_OBSTACLES_IN_MAP cfg"
    unfolding cb_prefix_def
    by (rule cb_fold_inv[where P = "\<lambda>s. uint (n_obstacles s) \<le> MAX_OBSTACLES_IN_MAP cfg"])
       (simp_all add: try_insert_bounded b)
  moreover have "fst (color_detection_cb cfg p msg st) = fst (cb_prefix cfg p msg st (nat (msg_size msg)))"
    by (simp add: color_detection_cb_def cb_prefix_def)
  ultimately show ?thesis using b by (simp add: cb_prefix_full)
qed

text \<open>With capacity 2 and the obstacles (0, 1) and (0, 3) stored, a third detection at (0, 5) changes nothing.\<close>

theorem obstacle_count_bounded_witness:
  "0 \<le> MAX_OBSTACLES_IN_MAP cfg_ex
   \<and> uint (n_obstacles (run cfg_ex opt_ex st_ex [Detection pose_ex (msg_ex [1, 3])])) = 2
   \<and> fst (color_detection_cb cfg_ex pose_ex (msg_ex [5])
           (run cfg_ex opt_ex st_ex [Detection pose_ex (msg_ex [1, 3])]))
       = run cfg_ex opt_ex st_ex [Detection pose_ex (msg_ex [1, 3])]"
proof -
  have c: "0 \<le> MAX_OBSTACLES_IN_MAP cfg_ex" by (simp add: cfg_ex_def)
  have r: "run cfg_ex opt_ex st_ex [Detection pose_ex (msg_ex [1, 3])]
      = run cfg_ex opt_ex (init_state cfg_ex (\<lambda>w. zero_coor)) [Detection pose_ex (msg_ex [1, 3])]"
    by (simp add: st_ex_def)
  have n: "uint (n_obstacles (run cfg_ex opt_ex st_ex [Detection pose_ex (msg_ex [1, 3])])) = 2"
    unfolding ex_run2 by simp
  show ?thesis
    using obstacle_count_bounded[OF c r, of pose_ex "msg_ex [5]" 1] n
    by (simp add: cfg_ex_def)
qed

lemma unat_less_of_uint: "uint (w :: uint8_t) < int n \<Longrightarrow> unat w < n"
  by (metis nat_less_iff uint_ge_0 unat_eq_nat_uint)

lemma cb_iter_snd:
  "snd (cb_iter cfg p i sm) =
     (snd sm)\<lparr>obstacles := (obstacles (snd sm))[i := fix_distance (obstacles (snd sm) ! i)]\<rparr>"
  by (simp add: cb_iter_def Let_def)

lemma cb_fold_snd:
  "snd (foldl (\<lambda>sm i. cb_iter cfg p i sm) sm [0 ..< k]) =
     (snd sm)\<lparr>obstacles := map (\<lambda>i. if i < k then fix_distance (obstacles (snd sm) ! i)
                                    else obstacles (snd sm) ! i)
                             [0 ..< length (obstacles (snd sm))]\<rparr>"
proof (induction k)
  case 0
  show ?case by (simp add: map_nth)
next
  case (Suc k)
  let ?xs = "obstacles (snd sm)"
  let ?g = "\<lambda>k i. if i < k then fix_distance (?xs ! i) else ?xs ! i"
  have "(map (?g k) [0 ..< length ?xs])[k := fix_distance (map (?g k) [0 ..< length ?xs] ! k)]
        = map (?g (Suc k)) [0 ..< length ?xs]"
    by (rule nth_equalityI) (auto simp: nth_list_update less_Suc_eq)
  then show ?case
    by (simp add: cb_iter_snd Suc.IH)
qed

lemma fix_distance_fields:
  "left_heading (fix_distance ob) = left_heading ob"
  "right_heading (fix_distance ob) = right_heading ob"
  "distance (fix_distance ob) = (if distance ob = 0 then 0.5 else distance ob)"
  by (simp_all add: fix_distance_def)

text \<open>
  C10. The callback writes the substituted distance back into the message it was handed:
  afterwards the message has the same size field and as many observations; every
  observation keeps its two headings; and the distance of an observation is 0.5 where the
  loop visited it and found exactly 0, and is what it was everywhere else.
\<close>

theorem callback_message_writeback:
  assumes "msg_size msg \<le> int (length (obstacles msg))"
  shows "msg_size (snd (color_detection_cb cfg p msg st)) = msg_size msg
       \<and> length (obstacles (snd (color_detection_cb cfg p msg st))) = length (obstacles msg)
       \<and> (\<forall>i < length (obstacles msg).
            left_heading (obstacles (snd (color_detection_cb cfg p msg st)) ! i)
              = left_heading (obstacles msg ! i)
          \<and> right_heading (obstacles (snd (color_detection_cb cfg p msg st)) ! i)
              = right_heading (obstacles msg ! i)
          \<and> distance (obstacles (snd (color_detection_cb cfg p msg st)) ! i)
              = (if int i < msg_size msg \<and> distance (obstacles msg ! i) = 0 then 0.5
                 else distance (obstacles msg ! i)))"
proof -
  have "snd (color_detection_cb cfg p msg st) =
     msg\<lparr>obstacles := map (\<lambda>i. if i < nat (msg_size msg) then fix_distance (obstacles msg ! i)
                                else obstacles msg ! i)
                         [0 ..< length (obstacles msg)]\<rparr>"
    unfolding color_detection_cb_def cb_fold_snd by simp
  then show ?thesis
    by (auto simp: fix_distance_fields)
qed

text \<open>A message with the distances 0 and 2 comes back with the distances 0.5 and 2.\<close>

theorem callback_message_writeback_witness:
  "msg_size (msg_ex [0, 2]) \<le> int (length (obstacles (msg_ex [0, 2])))
   \<and> snd (color_detection_cb cfg_ex pose_ex (msg_ex [0, 2]) st_ex) = msg_ex [0.5, 2]"
proof -
  have c: "msg_size (msg_ex [0, 2]) \<le> int (length (obstacles (msg_ex [0, 2])))"
    by (simp add: msg_ex_def)
  have e: "m = m'" if "msg_size m = msg_size m'" "length (obstacles m) = length (obstacles m')"
     "\<forall>i < length (obstacles m'). left_heading (obstacles m ! i) = left_heading (obstacles m' ! i)
         \<and> right_heading (obstacles m ! i) = right_heading (obstacles m' ! i)
         \<and> distance (obstacles m ! i) = distance (obstacles m' ! i)" for m m' :: ObstacleMsg
  proof -
    have "obstacles m = obstacles m'"
      using that(2,3) by (intro nth_equalityI) (auto intro: ObstacleDet.equality)
    then show ?thesis using that(1) by (intro ObstacleMsg.equality) simp_all
  qed
  have "snd (color_detection_cb cfg_ex pose_ex (msg_ex [0, 2]) st_ex) = msg_ex [0.5, 2]"
    using callback_message_writeback[OF c, of cfg_ex pose_ex st_ex]
    by (intro e) (simp_all add: msg_ex_def det_ex_def less_Suc_eq)
  then show ?thesis using c by simp
qed

lemma absolute_position_eq:
  "absolute_position p (fix_distance ob) =
     \<lparr>px = GetPosX p + (if distance ob = 0 then 0.5 else distance ob)
                        * sin ((left_heading ob + right_heading ob) / 2 * (pi / 180) + psi p),
      py = GetPosY p + (if distance ob = 0 then 0.5 else distance ob)
                        * cos ((left_heading ob + right_heading ob) / 2 * (pi / 180) + psi p)\<rparr>"
  by (simp add: absolute_position_def fix_distance_def RadOfDeg_def POS_BFP_OF_REAL_def
      Let_def mult.commute)

lemma cb_prefix_Suc:
  "cb_prefix cfg p msg st (Suc k) = cb_iter cfg p k (cb_prefix cfg p msg st k)"
  by (simp add: cb_prefix_def)

lemma cb_prefix_untouched:
  assumes "k < length (obstacles msg)"
  shows "obstacles (snd (cb_prefix cfg p msg st k)) ! k = obstacles msg ! k"
    and "length (obstacles (snd (cb_prefix cfg p msg st k))) = length (obstacles msg)"
  using assms unfolding cb_prefix_def cb_fold_snd by simp_all

lemma cb_prefix_step:
  assumes "k < length (obstacles msg)"
  shows "fst (cb_prefix cfg p msg st (Suc k)) =
     try_insert cfg (absolute_position p (fix_distance (obstacles msg ! k)))
       (fst (cb_prefix cfg p msg st k))"
  unfolding cb_prefix_Suc cb_iter_fst
  using cb_prefix_untouched[OF assms, of cfg p st] assms by simp

lemma cb_prefix_fold:
  assumes "k \<le> length (obstacles msg)"
  shows "fst (cb_prefix cfg p msg st k) =
     foldl (\<lambda>s i. try_insert cfg (absolute_position p (fix_distance (obstacles msg ! i))) s)
       st [0 ..< k]"
  using assms
proof (induction k)
  case 0
  show ?case by (simp add: cb_prefix_def)
next
  case (Suc k)
  then have k: "k < length (obstacles msg)" by simp
  show ?case
    unfolding cb_prefix_step[OF k] using Suc.IH k by simp
qed

text \<open>
  C5. The callback on a message (whose size does not exceed its array of observations), and
  its observation \<open>k\<close> below the size: with the distance replaced by 0.5 when it is exactly
  0, and the heading the mean of the two reported headings turned into radians, the
  position of the observation is the vehicle position plus the distance times (sin, cos) of
  heading plus yaw. The callback's resulting state is the insertion of these positions in
  the order of the message; it is the state of the loop after all its iterations; iteration
  \<open>k\<close> of the loop inserts the position of observation \<open>k\<close> as the message held it when the
  callback was entered; and when that insertion stores (no obstacle within distance 1,
  the count below the capacity, which the array and the 8-bit count hold), the new slot
  holds exactly that position.
\<close>

theorem callback_positions:
  assumes "msg_size msg \<le> int (length (obstacles msg))" and "k < nat (msg_size msg)"
  shows "let position = (\<lambda>ob :: ObstacleDet.
               \<lparr>px = GetPosX p + (if distance ob = 0 then 0.5 else distance ob)
                        * sin ((left_heading ob + right_heading ob) / 2 * (pi / 180) + psi p),
                py = GetPosY p + (if distance ob = 0 then 0.5 else distance ob)
                        * cos ((left_heading ob + right_heading ob) / 2 * (pi / 180) + psi p)\<rparr>);
             pos = position (obstacles msg ! k);
             before = fst (cb_prefix cfg p msg st k);
             after = fst (cb_prefix cfg p msg st (Suc k))
         in fst (color_detection_cb cfg p msg st) =
              foldl (\<lambda>s i. try_insert cfg (position (obstacles msg ! i)) s) st
                [0 ..< nat (msg_size msg)]
          \<and> fst (color_detection_cb cfg p msg st) = fst (cb_prefix cfg p msg st (nat (msg_size msg)))
          \<and> after = try_insert cfg pos before
          \<and> (\<not> (\<exists>ob \<in> set (take (unat (n_obstacles before)) (obstacle_map before)).
                   sqrt ((px (loc ob) - px pos)\<^sup>2 + (py (loc ob) - py pos)\<^sup>2) < 1)
              \<and> uint (n_obstacles before) < MAX_OBSTACLES_IN_MAP cfg
              \<and> MAX_OBSTACLES_IN_MAP cfg \<le> int (length (obstacle_map before))
              \<and> length (obstacle_map before) \<le> 255
              \<longrightarrow> loc (obstacle_map after ! unat (n_obstacles before)) = pos
                \<and> n_obstacles after = n_obstacles before + 1)"
proof -
  define position where "position = (\<lambda>ob :: ObstacleDet.
               \<lparr>px = GetPosX p + (if distance ob = 0 then 0.5 else distance ob)
                        * sin ((left_heading ob + right_heading ob) / 2 * (pi / 180) + psi p),
                py = GetPosY p + (if distance ob = 0 then 0.5 else distance ob)
                        * cos ((left_heading ob + right_heading ob) / 2 * (pi / 180) + psi p)\<rparr>)"
  define pos where "pos = position (obstacles msg ! k)"
  define before where "before = fst (cb_prefix cfg p msg st k)"
  define after where "after = fst (cb_prefix cfg p msg st (Suc k))"
  have ap: "absolute_position p (fix_distance ob) = position ob" for ob
    unfolding position_def by (rule absolute_position_eq)
  have n: "nat (msg_size msg) \<le> length (obstacles msg)" using assms(1) by linarith
  then have k: "k < length (obstacles msg)" using assms(2) by linarith
  have w: "fst (color_detection_cb cfg p msg st) = fst (cb_prefix cfg p msg st (nat (msg_size msg)))"
    by (simp add: color_detection_cb_def cb_prefix_def)
  have f: "fst (color_detection_cb cfg p msg st) =
      foldl (\<lambda>s i. try_insert cfg (position (obstacles msg ! i)) s) st [0 ..< nat (msg_size msg)]"
    unfolding w cb_prefix_fold[OF n] ap ..
  have s: "after = try_insert cfg pos before"
    unfolding after_def before_def pos_def cb_prefix_step[OF k] ap ..
  have t: "loc (obstacle_map after ! unat (n_obstacles before)) = pos
         \<and> n_obstacles after = n_obstacles before + 1"
    if h: "\<not> (\<exists>ob \<in> set (take (unat (n_obstacles before)) (obstacle_map before)).
                   sqrt ((px (loc ob) - px pos)\<^sup>2 + (py (loc ob) - py pos)\<^sup>2) < 1)"
       "uint (n_obstacles before) < MAX_OBSTACLES_IN_MAP cfg"
       "MAX_OBSTACLES_IN_MAP cfg \<le> int (length (obstacle_map before))"
       "length (obstacle_map before) \<le> 255"
  proof -
    have "uint (n_obstacles before) < int (length (obstacle_map before))" using h(2,3) by linarith
    then have l: "unat (n_obstacles before) < length (obstacle_map before)"
      by (rule unat_less_of_uint)
    then have "unat (n_obstacles before) < 255" using h(4) by linarith
    then show ?thesis using h(1,2) l
      unfolding s try_insert_def try_insert_with_def checkObstaclePresence_float
      by (simp add: add_obstacle_eq del: real_sqrt_lt_1_iff)
  qed
  show ?thesis
    unfolding Let_def position_def[symmetric] pos_def[symmetric] before_def[symmetric]
      after_def[symmetric]
    using f w s t by blast
qed

text \<open>
  A message of one detection at distance 0 straight ahead of a vehicle at the origin with
  zero yaw, received with an empty map of capacity 2: the first iteration of the loop
  stores it in slot 0 at (0, 0.5), not at (0, 0), and that is the state the callback
  leaves.
\<close>

theorem callback_positions_witness:
  "msg_size (msg_ex [0]) \<le> int (length (obstacles (msg_ex [0])))
   \<and> (0::nat) < nat (msg_size (msg_ex [0]))
   \<and> fst (cb_prefix cfg_ex pose_ex (msg_ex [0]) st_ex 0) = st_ex
   \<and> uint (n_obstacles st_ex) < MAX_OBSTACLES_IN_MAP cfg_ex
   \<and> MAX_OBSTACLES_IN_MAP cfg_ex \<le> int (length (obstacle_map st_ex))
   \<and> length (obstacle_map st_ex) \<le> 255
   \<and> loc (obstacle_map (fst (cb_prefix cfg_ex pose_ex (msg_ex [0]) st_ex (Suc 0))) ! 0)
      = \<lparr>px = 0, py = 0.5\<rparr>
   \<and> n_obstacles (fst (cb_prefix cfg_ex pose_ex (msg_ex [0]) st_ex (Suc 0))) = 1
   \<and> fst (color_detection_cb cfg_ex pose_ex (msg_ex [0]) st_ex)
      = st_ex\<lparr>n_obstacles := 1,
           obstacle_map := [\<lparr>loc = \<lparr>px = 0, py = 0.5\<rparr>\<rparr>, \<lparr>loc = \<lparr>px = 0, py = 0\<rparr>\<rparr>],
           obstacle_map_updated := True\<rparr>"
proof -
  have c: "msg_size (msg_ex [0]) \<le> int (length (obstacles (msg_ex [0])))"
    "(0::nat) < nat (msg_size (msg_ex [0]))"
    by (simp_all add: msg_ex_def)
  have b: "fst (cb_prefix cfg_ex pose_ex (msg_ex [0]) st_ex 0) = st_ex"
    by (simp add: cb_prefix_def)
  have h: "uint (n_obstacles st_ex) < MAX_OBSTACLES_IN_MAP cfg_ex"
    "MAX_OBSTACLES_IN_MAP cfg_ex \<le> int (length (obstacle_map st_ex))"
    "length (obstacle_map st_ex) \<le> 255"
    "n_obstacles st_ex = 0"
    by (simp_all add: st_ex_def init_state_def cfg_ex_def)
  note t = callback_positions[OF c, of pose_ex cfg_ex st_ex, unfolded Let_def b]
  note t4 = t[THEN conjunct2, THEN conjunct2, THEN conjunct2]
  have ap: "absolute_position pose_ex (fix_distance (obstacles (msg_ex [0]) ! 0))
      = \<lparr>px = 0, py = 0.5\<rparr>"
    by (simp add: absolute_position_def fix_distance_def msg_ex_def det_ex_def pose_ex_def
        RadOfDeg_def POS_BFP_OF_REAL_def)
  note t5 = t4[folded absolute_position_eq, unfolded ap h(4)]
  have pre: "\<not> (\<exists>ob \<in> set (take (unat (0 :: uint8_t)) (obstacle_map st_ex)).
            sqrt ((px (loc ob) - px \<lparr>px = 0, py = 0.5\<rparr>)\<^sup>2
                + (py (loc ob) - py \<lparr>px = 0, py = 0.5\<rparr>)\<^sup>2) < 1)
      \<and> uint (0 :: uint8_t) < MAX_OBSTACLES_IN_MAP cfg_ex
      \<and> MAX_OBSTACLES_IN_MAP cfg_ex \<le> int (length (obstacle_map st_ex))
      \<and> length (obstacle_map st_ex) \<le> 255"
    by (simp add: cfg_ex_def st_ex_def init_state_def)
  note t6 = t5[THEN mp, OF pre]
  have u1: "unat (0 :: uint8_t) = 0" by simp
  have u2: "(0 :: uint8_t) + 1 = 1" by simp
  have s: "loc (obstacle_map (fst (cb_prefix cfg_ex pose_ex (msg_ex [0]) st_ex (Suc 0))) ! 0)
      = \<lparr>px = 0, py = 0.5\<rparr>
   \<and> n_obstacles (fst (cb_prefix cfg_ex pose_ex (msg_ex [0]) st_ex (Suc 0))) = 1"
    by (rule t6[unfolded u1 u2])
  from t[THEN conjunct1] have f: "fst (color_detection_cb cfg_ex pose_ex (msg_ex [0]) st_ex)
      = st_ex\<lparr>n_obstacles := 1,
           obstacle_map := [\<lparr>loc = \<lparr>px = 0, py = 0.5\<rparr>\<rparr>, \<lparr>loc = \<lparr>px = 0, py = 0\<rparr>\<rparr>],
           obstacle_map_updated := True\<rparr>"
    by (simp add: ex_eval)
  show ?thesis
    by (intro conjI c b h(1,2,3) s[THEN conjunct1] s[THEN conjunct2] f)
qed

lemma coor_eta: "\<lparr>px = px v, py = py v\<rparr> = v"
  by (cases v) simp

lemma ut_fold:
  assumes k: "unat (subtraj_index s) < length (full_trajectory s)"
  shows "foldl (ut_iter b j) s [0 ..< n] =
     s\<lparr>full_trajectory := (full_trajectory s)
          [unat (subtraj_index s) := (full_trajectory s ! unat (subtraj_index s))
             \<lparr>inner_trajectory :=
                map (\<lambda>i. if i < n then ut_point b (tl_size (full_trajectory s ! j)) i
                          else inner_trajectory (full_trajectory s ! unat (subtraj_index s)) ! i)
                  [0 ..< length (inner_trajectory (full_trajectory s ! unat (subtraj_index s)))]\<rparr>]\<rparr>"
proof (induction n)
  case 0
  show ?case by (simp add: map_nth)
next
  case (Suc n)
  let ?k = "unat (subtraj_index s)"
  let ?ft = "full_trajectory s"
  let ?it = "inner_trajectory (?ft ! ?k)"
  let ?S = "tl_size (?ft ! j)"
  let ?g = "\<lambda>n i. if i < n then ut_point b ?S i else ?it ! i"
  let ?X = "\<lambda>n. (?ft ! ?k)\<lparr>inner_trajectory := map (?g n) [0 ..< length ?it]\<rparr>"
  let ?s = "\<lambda>n. s\<lparr>full_trajectory := ?ft[?k := ?X n]\<rparr>"
  have sz: "tl_size (full_trajectory (?s n) ! j) = ?S"
    using k by (cases "j = ?k") simp_all
  have upd: "(map (?g n) [0 ..< length ?it])[n := v] =
             map (\<lambda>i. if i = n then v else ?g n i) [0 ..< length ?it]" for v
    by (rule nth_equalityI) (auto simp: nth_list_update)
  have g: "(\<lambda>i. if i = n then ut_point b ?S n else ?g n i) = ?g (Suc n)"
    by (auto simp: fun_eq_iff less_Suc_eq)
  have "ut_iter b j (?s n) n = set_inner_point ?k n (ut_point b ?S n) (?s n)"
    unfolding ut_iter_def sz by (simp add: ut_point_def coor_eta)
  also have "\<dots> = s\<lparr>full_trajectory := ?ft[?k := (?ft ! ?k)
        \<lparr>inner_trajectory := (map (?g n) [0 ..< length ?it])[n := ut_point b ?S n]\<rparr>]\<rparr>"
    using k by (simp add: set_inner_point_def Let_def)
  also have "\<dots> = ?s (Suc n)"
    unfolding upd g ..
  finally have "ut_iter b j (?s n) n = ?s (Suc n)" .
  then show ?case by (simp add: Suc.IH)
qed

lemma updateTrajectory_points:
  assumes "unat (subtraj_index st) < length (full_trajectory st)"
      and "j < length (full_trajectory st)"
      and "length (inner_trajectory (full_trajectory st ! unat (subtraj_index st)))
             = nat (INNER_TRAJECTORY_SPACE cfg)"
      and "res = opt (obstacle_map st) (inner_trajectory (full_trajectory st ! j))
                   (tl_size (full_trajectory st ! j)) (n_obstacles st)"
      and "r = updateTrajectory cfg opt j st"
  shows "fst r = True"
    and "subtraj_index (snd r) = subtraj_index st"
    and "tl_size (full_trajectory (snd r) ! j) = snd res"
    and "length (inner_trajectory (full_trajectory (snd r) ! unat (subtraj_index st)))
           = nat (INNER_TRAJECTORY_SPACE cfg)"
    and "\<And>i. i < nat (INNER_TRAJECTORY_SPACE cfg) \<Longrightarrow>
           inner_trajectory (full_trajectory (snd r) ! unat (subtraj_index st)) ! i
             = (if int i < uint (snd res) then buf (fst res) i else \<lparr>px = 0, py = 0\<rparr>)"
proof -
  define seg where "seg = full_trajectory st ! j"
  have res: "res = opt (obstacle_map st) (inner_trajectory seg) (tl_size seg) (n_obstacles st)"
    using assms(4) by (simp add: seg_def)
  define st1 where "st1 = st\<lparr>full_trajectory := (full_trajectory st)[j := seg\<lparr>tl_size := snd res\<rparr>]\<rparr>"
  define k where "k = unat (subtraj_index st)"
  have k1: "unat (subtraj_index st1) < length (full_trajectory st1)"
    using assms(1) by (simp add: st1_def)
  have u: "updateTrajectory cfg opt j st =
      (True, foldl (ut_iter (fst res) j) st1 [0 ..< nat (INNER_TRAJECTORY_SPACE cfg)])"
    by (simp add: updateTrajectory_def Let_def seg_def res st1_def)
  have sk: "subtraj_index st1 = subtraj_index st" by (simp add: st1_def)
  have len: "length (inner_trajectory (full_trajectory st1 ! k)) = nat (INNER_TRAJECTORY_SPACE cfg)"
    using assms by (cases "j = k") (simp_all add: st1_def k_def seg_def)
  have sz: "tl_size (full_trajectory st1 ! j) = snd res"
    using assms(2) by (simp add: st1_def)
  have kl: "k < length (full_trajectory st1)" using assms(1) by (simp add: st1_def k_def)
  have jl: "j < length (full_trajectory st1)" using assms(2) by (simp add: st1_def)
  have k1': "unat (subtraj_index st1) = k" by (simp add: st1_def k_def)
  define st2 where "st2 = foldl (ut_iter (fst res) j) st1 [0 ..< nat (INNER_TRAJECTORY_SPACE cfg)]"
  have st2: "st2 = st1\<lparr>full_trajectory := (full_trajectory st1)
          [k := (full_trajectory st1 ! k)
             \<lparr>inner_trajectory :=
                map (\<lambda>i. if i < nat (INNER_TRAJECTORY_SPACE cfg) then ut_point (fst res) (snd res) i
                          else inner_trajectory (full_trajectory st1 ! k) ! i)
                  [0 ..< nat (INNER_TRAJECTORY_SPACE cfg)]\<rparr>]\<rparr>"
    unfolding st2_def ut_fold[OF k1] k1' sz len ..
  have c2: "subtraj_index st2 = subtraj_index st" by (simp add: st2 sk)
  have c3: "tl_size (full_trajectory st2 ! j) = snd res"
    using kl jl sz by (cases "j = k") (simp_all add: st2)
  have act: "inner_trajectory (full_trajectory st2 ! k) =
      map (\<lambda>i. if i < nat (INNER_TRAJECTORY_SPACE cfg) then ut_point (fst res) (snd res) i
                          else inner_trajectory (full_trajectory st1 ! k) ! i)
                  [0 ..< nat (INNER_TRAJECTORY_SPACE cfg)]"
    using kl by (simp add: st2)
  have c4: "length (inner_trajectory (full_trajectory st2 ! k)) = nat (INNER_TRAJECTORY_SPACE cfg)"
    unfolding act by simp
  have c5: "inner_trajectory (full_trajectory st2 ! k) ! i
       = (if int i < uint (snd res) then buf (fst res) i else \<lparr>px = 0, py = 0\<rparr>)"
    if "i < nat (INNER_TRAJECTORY_SPACE cfg)" for i
    unfolding act using that by (simp add: ut_point_def)
  have r: "r = (True, st2)" unfolding assms(5) u st2_def ..
  show "fst r = True" by (simp add: r)
  show "subtraj_index (snd r) = subtraj_index st" by (simp add: r c2)
  show "tl_size (full_trajectory (snd r) ! j) = snd res" by (simp add: r c3)
  show "length (inner_trajectory (full_trajectory (snd r) ! unat (subtraj_index st)))
           = nat (INNER_TRAJECTORY_SPACE cfg)"
    using c4 by (simp add: r k_def)
  show "inner_trajectory (full_trajectory (snd r) ! unat (subtraj_index st)) ! i
             = (if int i < uint (snd res) then buf (fst res) i else \<lparr>px = 0, py = 0\<rparr>)"
    if "i < nat (INNER_TRAJECTORY_SPACE cfg)" for i
    using c5[OF that] by (simp add: r k_def)
qed

text \<open>
  C2. A rebuild returns true; the size the optimizer answers is stored in the segment whose
  size was passed; and in the active segment every slot below that size holds the optimizer's
  point of the same index, every other slot up to the capacity of the segment holds (0, 0).
\<close>

theorem updateTrajectory_result:
  assumes "unat (subtraj_index st) < length (full_trajectory st)"
      and "j < length (full_trajectory st)"
      and "length (inner_trajectory (full_trajectory st ! unat (subtraj_index st)))
             = nat (INNER_TRAJECTORY_SPACE cfg)"
  shows "let seg = full_trajectory st ! j;
             res = opt (obstacle_map st) (inner_trajectory seg) (tl_size seg) (n_obstacles st);
             r = updateTrajectory cfg opt j st;
             active = full_trajectory (snd r) ! unat (subtraj_index (snd r))
         in fst r = True
          \<and> subtraj_index (snd r) = subtraj_index st
          \<and> tl_size (full_trajectory (snd r) ! j) = snd res
          \<and> length (inner_trajectory active) = nat (INNER_TRAJECTORY_SPACE cfg)
          \<and> (\<forall>i < nat (INNER_TRAJECTORY_SPACE cfg).
                inner_trajectory active ! i
                  = (if int i < uint (snd res) then buf (fst res) i else \<lparr>px = 0, py = 0\<rparr>))"
  using updateTrajectory_points[OF assms refl refl]
  unfolding Let_def by simp

text \<open>
  In the initial state of the small configuration, with the optimizer that answers the points
  (1, 0), (1, 1), ... and the size 2: the first segment becomes (1, 0), (1, 1), (0, 0).
\<close>

theorem updateTrajectory_result_witness:
  "unat (subtraj_index st_ex) < length (full_trajectory st_ex)
   \<and> 0 < length (full_trajectory st_ex)
   \<and> length (inner_trajectory (full_trajectory st_ex ! unat (subtraj_index st_ex)))
        = nat (INNER_TRAJECTORY_SPACE cfg_ex)
   \<and> fst (updateTrajectory cfg_ex opt_ex 0 st_ex) = True
   \<and> tl_size (full_trajectory (snd (updateTrajectory cfg_ex opt_ex 0 st_ex)) ! 0) = 2
   \<and> inner_trajectory (full_trajectory (snd (updateTrajectory cfg_ex opt_ex 0 st_ex)) ! 0)
        = [\<lparr>px = 1, py = 0\<rparr>, \<lparr>px = 1, py = 1\<rparr>, \<lparr>px = 0, py = 0\<rparr>]"
proof -
  have h: "unat (subtraj_index st_ex) < length (full_trajectory st_ex)"
    "0 < length (full_trajectory st_ex)"
    "length (inner_trajectory (full_trajectory st_ex ! unat (subtraj_index st_ex)))
        = nat (INNER_TRAJECTORY_SPACE cfg_ex)"
    by (simp_all add: st_ex_def init_state_def cfg_ex_def)
  have s: "unat (subtraj_index st_ex) = 0" by (simp add: st_ex_def init_state_def)
  have sp: "nat (INNER_TRAJECTORY_SPACE cfg_ex) = 3" by (simp add: cfg_ex_def)
  have o: "opt_ex a b c d = (\<lparr>buf = (\<lambda>i. \<lparr>px = 1, py = real i\<rparr>)\<rparr>, 2)" for a b c d
    by (simp add: opt_ex_def)
  let ?r = "updateTrajectory cfg_ex opt_ex 0 st_ex"
  let ?it = "inner_trajectory (full_trajectory (snd ?r) ! 0)"
  note t = updateTrajectory_result[OF h, where opt = opt_ex, unfolded Let_def]
  from t have t1: "fst ?r = True" by blast
  from t have t2: "subtraj_index (snd ?r) = subtraj_index st_ex" by blast
  from t have t3: "tl_size (full_trajectory (snd ?r) ! 0) = 2" by (simp add: o)
  from t have n: "length ?it = 3"
    "\<forall>i<3. ?it ! i = (if int i < 2 then \<lparr>px = 1, py = real i\<rparr> else \<lparr>px = 0, py = 0\<rparr>)"
    unfolding t2 s sp by (simp_all add: o)
  have l: "xs = [xs ! 0, xs ! 1, xs ! 2]" if "length xs = 3" for xs :: "EnuCoor_i list"
    using that by (intro nth_equalityI) (auto simp: less_Suc_eq eval_nat_numeral)
  have "?it = [\<lparr>px = 1, py = 0\<rparr>, \<lparr>px = 1, py = 1\<rparr>, \<lparr>px = 0, py = 0\<rparr>]"
    by (subst l[OF n(1)]) (simp add: n(2))
  then show ?thesis using t1 t3 h by simp
qed

lemma sqrt_lt_half: "sqrt x < 1 / 2 \<longleftrightarrow> x < 1 / 4"
proof -
  have "sqrt (1 / 4) = 1 / 2" by (simp add: real_sqrt_divide)
  then show ?thesis by (metis real_sqrt_less_iff)
qed

lemma periodic_inner_eq:
  "periodic_inner s =
     (if mse_inner s < 0.5 \<and> trajectory_updated s
      then s\<lparr>waypoints := (waypoints s)
                (WP_INNER := inner_trajectory (full_trajectory s ! unat (subtraj_index s))
                               ! unat (inner_index s)),
             inner_index := (if uint (inner_index s)
                                  < uint (tl_size (full_trajectory s ! unat (subtraj_index s))) - 1
                             then inner_index s + 1 else inner_index s)\<rparr>
      else s)"
  by (simp add: periodic_inner_def moveWaypointNext_def moveWaypoint_def waypoint_move_xy_i_def
      Let_def coor_eta)










lemma advance_outer_frame:
  "inner_index (advance_outer cfg s) = 0"
  "outer_trajectory (advance_outer cfg s) = outer_trajectory s"
  "initialized (advance_outer cfg s) = initialized s"
  "waypoints (advance_outer cfg s) = waypoints s"
  "full_trajectory (advance_outer cfg s) = full_trajectory s"
  "obstacle_map (advance_outer cfg s) = obstacle_map s"
  "n_obstacles (advance_outer cfg s) = n_obstacles s"
  by (simp_all add: advance_outer_def Let_def)

lemma periodic_outer_eq:
  assumes "mse_outer s < 0.5"
  shows "periodic_outer cfg opt s =
     (advance_outer cfg s)
       \<lparr>waypoints := (waypoints s)
           (WP_OUTER := outer_trajectory s ! unat (outer_index (advance_outer cfg s))),
        full_trajectory := full_trajectory (snd (updateTrajectory cfg opt
           (unat (subtraj_index (advance_outer cfg s)))
           (moveWaypointNext WP_OUTER (outer_trajectory s) (outer_index (advance_outer cfg s))
              (advance_outer cfg s)))),
        trajectory_updated := True\<rparr>"
proof -
  define s2 where "s2 = advance_outer cfg s"
  define s3 where "s3 = moveWaypointNext WP_OUTER (outer_trajectory s2) (outer_index s2) s2"
  have o2: "outer_trajectory s2 = outer_trajectory s" "waypoints s2 = waypoints s"
    by (simp_all add: s2_def advance_outer_frame)
  have s3: "s3 = s2\<lparr>waypoints := (waypoints s)(WP_OUTER := outer_trajectory s ! unat (outer_index s2))\<rparr>"
    by (simp add: s3_def moveWaypointNext_def moveWaypoint_def waypoint_move_xy_i_def coor_eta o2)
  obtain ft where u: "updateTrajectory cfg opt (unat (subtraj_index s2)) s3 = (True, s3\<lparr>full_trajectory := ft\<rparr>)"
    using updateTrajectory_only_ft by blast
  have k: "subtraj_index s3 = subtraj_index s2" by (simp add: s3)
  have "periodic_outer cfg opt s = (s3\<lparr>full_trajectory := ft\<rparr>)\<lparr>trajectory_updated := True\<rparr>"
    using assms unfolding periodic_outer_def Let_def s2_def[symmetric] s3_def[symmetric] k u
    by simp
  also have "\<dots> = s2\<lparr>waypoints := (waypoints s)(WP_OUTER := outer_trajectory s ! unat (outer_index s2)),
      full_trajectory := full_trajectory (snd (updateTrajectory cfg opt (unat (subtraj_index s2)) s3)),
      trajectory_updated := True\<rparr>"
    unfolding u by (simp add: s3)
  finally show ?thesis unfolding s3_def o2 unfolding s2_def .
qed

lemma foldl_nth_update:
  "foldl (\<lambda>xs i. xs[i := G i (xs ! i)]) xs [0 ..< n] =
     map (\<lambda>i. if i < n then G i (xs ! i) else xs ! i) [0 ..< length xs]"
proof (induction n)
  case 0
  show ?case by (simp add: map_nth)
next
  case (Suc n)
  show ?case
    unfolding upt_Suc_append[OF le0] foldl_append Suc.IH
    by (rule nth_equalityI) (auto simp: nth_list_update less_Suc_eq)
qed

lemma foldl_ft_lift:
  assumes "\<And>ft i. f (s\<lparr>full_trajectory := ft\<rparr>) i = s\<lparr>full_trajectory := F i ft\<rparr>"
  shows "foldl f s js = s\<lparr>full_trajectory := foldl (\<lambda>ft i. F i ft) (full_trajectory s) js\<rparr>"
proof -
  have "foldl f (s\<lparr>full_trajectory := ft\<rparr>) js
      = s\<lparr>full_trajectory := foldl (\<lambda>ft i. F i ft) ft js\<rparr>" for ft
    by (induction js arbitrary: ft) (simp_all add: assms)
  from this[of "full_trajectory s"] show ?thesis by simp
qed

lemma foldl_ot_lift:
  assumes "\<And>ot i. f (s\<lparr>outer_trajectory := ot\<rparr>) i = s\<lparr>outer_trajectory := F i ot\<rparr>"
  shows "foldl f s js = s\<lparr>outer_trajectory := foldl (\<lambda>ot i. F i ot) (outer_trajectory s) js\<rparr>"
proof -
  have "foldl f (s\<lparr>outer_trajectory := ot\<rparr>) js
      = s\<lparr>outer_trajectory := foldl (\<lambda>ot i. F i ot) ot js\<rparr>" for ot
    by (induction js arbitrary: ot) (simp_all add: assms)
  from this[of "outer_trajectory s"] show ?thesis by simp
qed

lemma buildOuterTrajectory_eq:
  "buildOuterTrajectory cfg p st =
     st\<lparr>outer_trajectory :=
          map (\<lambda>i. if i < nat (OUTER_TRAJECTORY_LENGTH cfg)
                    then \<lparr>px = rx_list p ! i, py = ry_list p ! i\<rparr>
                    else outer_trajectory st ! i)
            [0 ..< length (outer_trajectory st)]\<rparr>"
  unfolding buildOuterTrajectory_def POS_BFP_OF_REAL_def
  by (subst foldl_ot_lift[where F = "\<lambda>i ot. ot[i := \<lparr>px = rx_list p ! i, py = ry_list p ! i\<rparr>]"])
     (simp_all add: foldl_nth_update[where G = "\<lambda>i v. \<lparr>px = rx_list p ! i, py = ry_list p ! i\<rparr>"])

lemma actual_index:
  fixes b :: uint8_t
  assumes "unat b < nat N" "N \<le> 256"
  shows "unat (if uint b = N - 1 then 0 else b + 1) = (unat b + 1) mod nat N"
proof (cases "uint b = N - 1")
  case True
  then have "int (unat b) = N - 1" by simp
  then have "unat b + 1 = nat N" by linarith
  then show ?thesis using True by simp
next
  case False
  then have "int (unat b) \<noteq> N - 1" by simp
  then have l: "unat b + 1 < nat N" using assms(1) by linarith
  then have "unat b < 255" using assms(2) by linarith
  then have "unat (b + 1) = unat b + 1" by (rule uint8_succ)
  then show ?thesis using False l by simp
qed

lemma foldl_seg_points:
  assumes "k < length ft"
  shows "foldl (\<lambda>ft i. ft[k := (ft ! k)\<lparr>inner_trajectory := (inner_trajectory (ft ! k))[i := g i]\<rparr>])
           ft [0 ..< n] =
         ft[k := (ft ! k)\<lparr>inner_trajectory :=
               map (\<lambda>i. if i < n then g i else inner_trajectory (ft ! k) ! i)
                 [0 ..< length (inner_trajectory (ft ! k))]\<rparr>]"
proof (induction n)
  case 0
  show ?case by (simp add: map_nth)
next
  case (Suc n)
  have "(map (\<lambda>i. if i < n then g i else inner_trajectory (ft ! k) ! i)
            [0 ..< length (inner_trajectory (ft ! k))])[n := g n]
       = map (\<lambda>i. if i < Suc n then g i else inner_trajectory (ft ! k) ! i)
            [0 ..< length (inner_trajectory (ft ! k))]"
    by (rule nth_equalityI) (auto simp: nth_list_update less_Suc_eq)
  then show ?case
    unfolding upt_Suc_append[OF le0] foldl_append Suc.IH
    using assms by simp
qed

lemma buildInnerTrajectory_eq:
  assumes "unat b < length (full_trajectory st)"
      and "unat b < nat (OUTER_TRAJECTORY_LENGTH cfg)" "OUTER_TRAJECTORY_LENGTH cfg \<le> 256"
  shows "buildInnerTrajectory cfg b st =
     st\<lparr>full_trajectory := (full_trajectory st)
          [unat b := (full_trajectory st ! unat b)
             \<lparr>inner_trajectory :=
                map (\<lambda>i. if i < nat (INNER_TRAJECTORY_LENGTH cfg)
                          then line_point cfg (outer_trajectory st) (unat b) i
                          else inner_trajectory (full_trajectory st ! unat b) ! i)
                  [0 ..< length (inner_trajectory (full_trajectory st ! unat b))]\<rparr>]\<rparr>"
proof -
  let ?k = "unat b"
  let ?g = "line_point cfg (outer_trajectory st) ?k"
  let ?F = "\<lambda>i ft. ft[?k := (ft ! ?k)\<lparr>inner_trajectory := (inner_trajectory (ft ! ?k))[i := ?g i]\<rparr>]"
  let ?ft = "full_trajectory st"
  define nx where "nx = unat (if uint b = OUTER_TRAJECTORY_LENGTH cfg - 1 then 0 else b + 1)"
  have nx: "(?k + 1) mod nat (OUTER_TRAJECTORY_LENGTH cfg) = nx"
    unfolding nx_def by (rule actual_index[OF assms(2,3), symmetric])
  then have nx': "Suc ?k mod nat (OUTER_TRAJECTORY_LENGTH cfg) = nx" by simp
  have "buildInnerTrajectory cfg b st =
      st\<lparr>full_trajectory := foldl (\<lambda>ft i. ?F i ft) ?ft [0 ..< nat (INNER_TRAJECTORY_LENGTH cfg)]\<rparr>"
    unfolding buildInnerTrajectory_def Let_def nx_def[symmetric]
    by (rule foldl_ft_lift)
       (simp add: set_inner_point_def Let_def line_point_def nx' POS_BFP_OF_REAL_def
          POS_FLOAT_OF_BFP_def)
  then show ?thesis
    unfolding foldl_seg_points[OF assms(1)] .
qed

lemma build_all:
  assumes "length (full_trajectory s) = nat (OUTER_TRAJECTORY_LENGTH cfg)"
      and "OUTER_TRAJECTORY_LENGTH cfg \<le> 256"
      and "m \<le> nat (OUTER_TRAJECTORY_LENGTH cfg)"
  shows "foldl (\<lambda>s i. buildInnerTrajectory cfg (of_nat i) s) s [0 ..< m] =
     s\<lparr>full_trajectory :=
         map (\<lambda>i. if i < m then line_segment cfg (outer_trajectory s) i (full_trajectory s ! i)
                   else full_trajectory s ! i)
           [0 ..< length (full_trajectory s)]\<rparr>"
  using assms(3)
proof (induction m)
  case 0
  show ?case by (simp add: map_nth)
next
  case (Suc m)
  let ?N = "nat (OUTER_TRAJECTORY_LENGTH cfg)"
  let ?ft = "full_trajectory s"
  let ?G = "\<lambda>m i. if i < m then line_segment cfg (outer_trajectory s) i (?ft ! i) else ?ft ! i"
  let ?s = "\<lambda>m. s\<lparr>full_trajectory := map (?G m) [0 ..< length ?ft]\<rparr>"
  have m: "m < ?N" using Suc.prems by simp
  then have m256: "m < 256" using assms(2) by linarith
  have um: "unat (of_nat m :: uint8_t) = m"
    using m256 by (simp add: unat_of_nat)
  have IH: "foldl (\<lambda>s i. buildInnerTrajectory cfg (of_nat i) s) s [0 ..< m] = ?s m"
    using Suc.IH m by simp
  have l: "unat (of_nat m :: uint8_t) < length (full_trajectory (?s m))"
    using m assms(1) by (simp add: um)
  have l2: "unat (of_nat m :: uint8_t) < ?N" using m by (simp add: um)
  have seg: "full_trajectory (?s m) ! m = ?ft ! m" using m assms(1) by simp
  have ots: "outer_trajectory (?s m) = outer_trajectory s" by simp
  have "buildInnerTrajectory cfg (of_nat m) (?s m) =
      s\<lparr>full_trajectory := (map (?G m) [0 ..< length ?ft])
            [m := line_segment cfg (outer_trajectory s) m (?ft ! m)]\<rparr>"
    unfolding buildInnerTrajectory_eq[OF l l2 assms(2)] um seg ots
    by (simp add: line_segment_def)
  also have "(map (?G m) [0 ..< length ?ft])[m := line_segment cfg (outer_trajectory s) m (?ft ! m)]
      = map (?G (Suc m)) [0 ..< length ?ft]"
    by (rule nth_equalityI) (auto simp: nth_list_update less_Suc_eq)
  finally show ?case
    unfolding upt_Suc_append[OF le0] foldl_append IH by simp
qed

lemma set_sizes:
  "foldl (\<lambda>s i. s\<lparr>full_trajectory := (full_trajectory s)
                            [i := (full_trajectory s ! i)\<lparr>tl_size := w\<rparr>]\<rparr>) st [0 ..< n]
   = st\<lparr>full_trajectory := map (\<lambda>i. if i < n then (full_trajectory st ! i)\<lparr>tl_size := w\<rparr>
                                      else full_trajectory st ! i)
                               [0 ..< length (full_trajectory st)]\<rparr>"
  by (subst foldl_ft_lift[where F = "\<lambda>i ft. ft[i := (ft ! i)\<lparr>tl_size := w\<rparr>]"])
     (simp_all add: foldl_nth_update[where G = "\<lambda>i v. v\<lparr>tl_size := w\<rparr>"])

lemma periodic_init_eq:
  assumes "\<not> initialized st"
      and "length (full_trajectory st) = nat (OUTER_TRAJECTORY_LENGTH cfg)"
      and "OUTER_TRAJECTORY_LENGTH cfg \<le> 256"
  shows "periodic_init cfg p st =
     st\<lparr>outer_trajectory := outer_trajectory (buildOuterTrajectory cfg p st),
        full_trajectory :=
          map (\<lambda>i. line_segment cfg (outer_trajectory (buildOuterTrajectory cfg p st)) i
                      ((full_trajectory st ! i)
                         \<lparr>tl_size := word_of_int (INNER_TRAJECTORY_LENGTH cfg)\<rparr>))
            [0 ..< nat (OUTER_TRAJECTORY_LENGTH cfg)],
        initialized := True\<rparr>"
proof -
  let ?N = "nat (OUTER_TRAJECTORY_LENGTH cfg)"
  let ?w = "word_of_int (INNER_TRAJECTORY_LENGTH cfg) :: uint8_t"
  define ft1 where "ft1 = map (\<lambda>i. (full_trajectory st ! i)\<lparr>tl_size := ?w\<rparr>) [0 ..< ?N]"
  define ot where "ot = outer_trajectory (buildOuterTrajectory cfg p st)"
  define st1 where "st1 = st\<lparr>full_trajectory := ft1\<rparr>"
  define st2 where "st2 = st1\<lparr>outer_trajectory := ot\<rparr>"
  have 1: "foldl (\<lambda>s i. s\<lparr>full_trajectory := (full_trajectory s)
                            [i := (full_trajectory s ! i)\<lparr>tl_size := ?w\<rparr>]\<rparr>) st [0 ..< ?N] = st1"
    unfolding set_sizes st1_def ft1_def assms(2) by simp
  have 2: "buildOuterTrajectory cfg p st1 = st2"
    unfolding st2_def ot_def buildOuterTrajectory_eq by (simp add: st1_def)
  have l: "length (full_trajectory st2) = ?N" by (simp add: st2_def st1_def ft1_def)
  have 3: "foldl (\<lambda>s i. buildInnerTrajectory cfg (of_nat i) s) st2 [0 ..< ?N] =
      st2\<lparr>full_trajectory := map (\<lambda>i. line_segment cfg ot i (ft1 ! i)) [0 ..< ?N]\<rparr>"
    unfolding build_all[OF l assms(3) order_refl]
    by (simp add: st2_def st1_def ft1_def)
  have 4: "map (\<lambda>i. line_segment cfg ot i (ft1 ! i)) [0 ..< ?N]
         = map (\<lambda>i. line_segment cfg ot i ((full_trajectory st ! i)\<lparr>tl_size := ?w\<rparr>)) [0 ..< ?N]"
    by (simp add: ft1_def)
  show ?thesis
    using assms(1) unfolding periodic_init_def Let_def 1 2 3 4 ot_def[symmetric]
    by (simp add: st2_def st1_def)
qed



lemma periodic_init_outer:
  assumes "\<not> initialized st"
  shows "outer_trajectory (periodic_init cfg p st) =
          map (\<lambda>i. if i < nat (OUTER_TRAJECTORY_LENGTH cfg)
                    then \<lparr>px = rx_list p ! i, py = ry_list p ! i\<rparr>
                    else outer_trajectory st ! i)
            [0 ..< length (outer_trajectory st)]"
proof -
  let ?n = "[0 ..< nat (OUTER_TRAJECTORY_LENGTH cfg)]"
  let ?f1 = "\<lambda>s i. s\<lparr>full_trajectory := (full_trajectory s)
                            [i := (full_trajectory s ! i)
                                    \<lparr>tl_size := word_of_int (INNER_TRAJECTORY_LENGTH cfg)\<rparr>]\<rparr>"
  define st1 where "st1 = foldl ?f1 st ?n"
  have o1: "outer_trajectory st1 = outer_trajectory st"
    unfolding st1_def set_sizes by simp
  define st2 where "st2 = buildOuterTrajectory cfg p st1"
  obtain ft where "foldl (\<lambda>s i. buildInnerTrajectory cfg (of_nat i) s) st2 ?n = st2\<lparr>full_trajectory := ft\<rparr>"
    using foldl_only_ft[of "\<lambda>s i. buildInnerTrajectory cfg (of_nat i) s" st2 ?n]
      buildInnerTrajectory_only_ft by blast
  then have "outer_trajectory (periodic_init cfg p st) = outer_trajectory st2"
    using assms unfolding periodic_init_def Let_def st1_def[symmetric] st2_def[symmetric] by simp
  then show ?thesis
    unfolding st2_def buildOuterTrajectory_eq by (simp add: o1)
qed

lemma outer_list:
  assumes "N \<le> 5"
  shows "map (\<lambda>i. if i < N then \<lparr>px = rx_list p ! i, py = ry_list p ! i\<rparr> else ot ! i) [0 ..< N]
       = take N [\<lparr>px = GetPosX p, py = GetPosY p\<rparr>, \<lparr>px = 2, py = 2\<rparr>, \<lparr>px = 2, py = - 2\<rparr>,
                 \<lparr>px = 0, py = 0\<rparr>, \<lparr>px = 0, py = 0\<rparr>]"
proof (rule nth_equalityI)
  show "length (map (\<lambda>i. if i < N then \<lparr>px = rx_list p ! i, py = ry_list p ! i\<rparr> else ot ! i) [0 ..< N])
      = length (take N [\<lparr>px = GetPosX p, py = GetPosY p\<rparr>, \<lparr>px = 2, py = 2\<rparr>, \<lparr>px = 2, py = - 2\<rparr>,
                 \<lparr>px = 0, py = 0\<rparr>, \<lparr>px = 0, py = 0\<rparr>])"
    using assms by simp
next
  fix i
  assume "i < length (map (\<lambda>i. if i < N then \<lparr>px = rx_list p ! i, py = ry_list p ! i\<rparr> else ot ! i) [0 ..< N])"
  then have i: "i < N" by simp
  then have "i < 5" using assms by linarith
  then consider "i = 0" | "i = 1" | "i = 2" | "i = 3" | "i = 4" by linarith
  then show "map (\<lambda>i. if i < N then \<lparr>px = rx_list p ! i, py = ry_list p ! i\<rparr> else ot ! i) [0 ..< N] ! i
      = take N [\<lparr>px = GetPosX p, py = GetPosY p\<rparr>, \<lparr>px = 2, py = 2\<rparr>, \<lparr>px = 2, py = - 2\<rparr>,
                 \<lparr>px = 0, py = 0\<rparr>, \<lparr>px = 0, py = 0\<rparr>] ! i"
    using i by cases (simp_all add: rx_list_def ry_list_def eval_nat_numeral)
qed







lemma line_segment_fields:
  "tl_size (line_segment cfg ot i seg) = tl_size seg"
  "length (inner_trajectory (line_segment cfg ot i seg)) = length (inner_trajectory seg)"
  "j < nat (INNER_TRAJECTORY_LENGTH cfg) \<Longrightarrow> j < length (inner_trajectory seg) \<Longrightarrow>
     inner_trajectory (line_segment cfg ot i seg) ! j = line_point cfg ot i j"
  by (simp_all add: line_segment_def)

text \<open>
  C6. After the initialisation block of the first tick, segment \<open>i\<close> has the active size
  INNER_TRAJECTORY_LENGTH, and its point number \<open>k\<close> (counted from 1) is
  outer[i] + k (outer[next] - outer[i]) / INNER_TRAJECTORY_LENGTH in both coordinates, where
  next is i + 1 modulo OUTER_TRAJECTORY_LENGTH; so the points lie on the line through the two
  outer points, and two consecutive points differ by the same vector. Coordinates are real
  numbers here and the conversions are the identity.
\<close>

theorem inner_trajectory_initial:
  assumes "\<not> initialized st"
      and "length (full_trajectory st) = nat (OUTER_TRAJECTORY_LENGTH cfg)"
      and "OUTER_TRAJECTORY_LENGTH cfg \<le> 256"
      and "INNER_TRAJECTORY_LENGTH cfg \<le> 255"
      and "i < nat (OUTER_TRAJECTORY_LENGTH cfg)"
      and "nat (INNER_TRAJECTORY_LENGTH cfg) \<le> length (inner_trajectory (full_trajectory st ! i))"
      and "1 \<le> k" and "k \<le> nat (INNER_TRAJECTORY_LENGTH cfg)"
  shows "let st' = periodic_init cfg p st;
             a = outer_trajectory st' ! i;
             c = outer_trajectory st' ! ((i + 1) mod nat (OUTER_TRAJECTORY_LENGTH cfg));
             seg = full_trajectory st' ! i
         in int (unat (tl_size seg)) = INNER_TRAJECTORY_LENGTH cfg
          \<and> px (inner_trajectory seg ! (k - 1))
              = px a + real k * (px c - px a) / real_of_int (INNER_TRAJECTORY_LENGTH cfg)
          \<and> py (inner_trajectory seg ! (k - 1))
              = py a + real k * (py c - py a) / real_of_int (INNER_TRAJECTORY_LENGTH cfg)
          \<and> (k < nat (INNER_TRAJECTORY_LENGTH cfg) \<longrightarrow>
               px (inner_trajectory seg ! k) - px (inner_trajectory seg ! (k - 1))
                 = (px c - px a) / real_of_int (INNER_TRAJECTORY_LENGTH cfg)
             \<and> py (inner_trajectory seg ! k) - py (inner_trajectory seg ! (k - 1))
                 = (py c - py a) / real_of_int (INNER_TRAJECTORY_LENGTH cfg))"
proof -
  let ?L = "INNER_TRAJECTORY_LENGTH cfg"
  define st' where "st' = periodic_init cfg p st"
  define ot where "ot = outer_trajectory (buildOuterTrajectory cfg p st)"
  define seg where "seg = full_trajectory st' ! i"
  have L: "0 < ?L" using assms(7,8) by linarith
  have st': "st' = st\<lparr>outer_trajectory := ot,
        full_trajectory :=
          map (\<lambda>i. line_segment cfg ot i ((full_trajectory st ! i)\<lparr>tl_size := word_of_int ?L\<rparr>))
            [0 ..< nat (OUTER_TRAJECTORY_LENGTH cfg)],
        initialized := True\<rparr>"
    unfolding st'_def ot_def by (rule periodic_init_eq[OF assms(1,2,3)])
  have o: "outer_trajectory st' = ot" by (simp add: st')
  have s: "seg = line_segment cfg ot i ((full_trajectory st ! i)\<lparr>tl_size := word_of_int ?L\<rparr>)"
    using assms(5) by (simp add: seg_def st')
  have "uint (word_of_int ?L :: uint8_t) = ?L"
    using L assms(4) by (simp add: uint_word_of_int)
  then have sz: "int (unat (tl_size seg)) = ?L"
    by (simp add: s line_segment_fields)
  have pt: "inner_trajectory seg ! j = line_point cfg ot i j" if "j < nat ?L" for j
    using that assms(6) unfolding s by (simp add: line_segment_fields)
  have k1: "k - 1 < nat ?L" using assms(7,8) by simp
  have k2: "real (k - 1 + 1) = real k" "1 + real (k - Suc 0) = real k" using assms(7) by simp_all
  have x: "px (inner_trajectory seg ! (k - 1))
      = px (ot ! i) + real k * (px (ot ! ((i + 1) mod nat (OUTER_TRAJECTORY_LENGTH cfg))) - px (ot ! i)) / real_of_int ?L"
    unfolding pt[OF k1] line_point_def Let_def by (simp add: k2)
  have y: "py (inner_trajectory seg ! (k - 1))
      = py (ot ! i) + real k * (py (ot ! ((i + 1) mod nat (OUTER_TRAJECTORY_LENGTH cfg))) - py (ot ! i)) / real_of_int ?L"
    unfolding pt[OF k1] line_point_def Let_def by (simp add: k2)
  have d: "px (inner_trajectory seg ! k) - px (inner_trajectory seg ! (k - 1))
        = (px (ot ! ((i + 1) mod nat (OUTER_TRAJECTORY_LENGTH cfg))) - px (ot ! i)) / real_of_int ?L
      \<and> py (inner_trajectory seg ! k) - py (inner_trajectory seg ! (k - 1))
        = (py (ot ! ((i + 1) mod nat (OUTER_TRAJECTORY_LENGTH cfg))) - py (ot ! i)) / real_of_int ?L"
    if "k < nat ?L"
    unfolding pt[OF that] pt[OF k1] line_point_def Let_def
    using assms(7) L by (simp add: k2 field_simps)
  show ?thesis
    unfolding Let_def st'_def[symmetric] o seg_def[symmetric]
    using sz x y d by blast
qed

lemma updateTrajectory_eq:
  assumes "unat (subtraj_index st) < length (full_trajectory st)"
  shows "updateTrajectory cfg opt j st =
     (let seg = full_trajectory st ! j;
          res = opt (obstacle_map st) (inner_trajectory seg) (tl_size seg) (n_obstacles st);
          ft1 = (full_trajectory st)[j := seg\<lparr>tl_size := snd res\<rparr>];
          k = unat (subtraj_index st)
      in (True, st\<lparr>full_trajectory := ft1[k := (ft1 ! k)
            \<lparr>inner_trajectory :=
               map (\<lambda>i. if i < nat (INNER_TRAJECTORY_SPACE cfg)
                         then ut_point (fst res) (tl_size (ft1 ! j)) i
                         else inner_trajectory (ft1 ! k) ! i)
                 [0 ..< length (inner_trajectory (ft1 ! k))]\<rparr>]\<rparr>))"
proof -
  define seg where "seg = full_trajectory st ! j"
  define res where "res = opt (obstacle_map st) (inner_trajectory seg) (tl_size seg) (n_obstacles st)"
  define st1 where "st1 = st\<lparr>full_trajectory := (full_trajectory st)[j := seg\<lparr>tl_size := snd res\<rparr>]\<rparr>"
  have k1: "unat (subtraj_index st1) < length (full_trajectory st1)"
    using assms by (simp add: st1_def)
  have f: "full_trajectory st1 = (full_trajectory st)[j := seg\<lparr>tl_size := snd res\<rparr>]"
    "subtraj_index st1 = subtraj_index st"
    by (simp_all add: st1_def)
  have "updateTrajectory cfg opt j st =
      (True, foldl (ut_iter (fst res) j) st1 [0 ..< nat (INNER_TRAJECTORY_SPACE cfg)])"
    by (simp add: updateTrajectory_def Let_def seg_def res_def st1_def)
  then show ?thesis
    unfolding ut_fold[OF k1] Let_def seg_def[symmetric] res_def[symmetric] f
    by (simp add: st1_def)
qed

lemma tick_initialized:
  assumes "initialized st"
  shows "orange_avoider_periodic cfg opt p st =
     (periodic_outer cfg opt (periodic_inner (periodic_dirty cfg opt (periodic_arrival p st))))
       \<lparr>nav_goto := Some WP_INNER\<rparr>"
  using assms by (simp add: orange_avoider_periodic_def before_outer_def periodic_init_def)

lemma upt3: "[0 ..< 3] = [0, 1, 2::nat]"
  by (simp add: upt_rec)

lemma ex_cfg:
  "nat (OUTER_TRAJECTORY_LENGTH cfg_ex) = 3" "nat (INNER_TRAJECTORY_LENGTH cfg_ex) = 2"
  "nat (INNER_TRAJECTORY_SPACE cfg_ex) = 3" "OUTER_TRAJECTORY_LENGTH cfg_ex = 3"
  "INNER_TRAJECTORY_LENGTH cfg_ex = 2"
  by (simp_all add: cfg_ex_def)

lemma ex_st:
  "\<not> initialized st_ex" "outer_trajectory st_ex = [zero_coor, zero_coor, zero_coor]"
  "full_trajectory st_ex = [\<lparr>inner_trajectory = [zero_coor, zero_coor, zero_coor], tl_size = 0\<rparr>,
     \<lparr>inner_trajectory = [zero_coor, zero_coor, zero_coor], tl_size = 0\<rparr>,
     \<lparr>inner_trajectory = [zero_coor, zero_coor, zero_coor], tl_size = 0\<rparr>]"
  by (simp_all add: st_ex_def init_state_def cfg_ex_def eval_nat_numeral)

lemma ex_outer: "outer_trajectory (buildOuterTrajectory cfg_ex pose_ex st_ex)
      = [\<lparr>px = 0, py = 0\<rparr>, \<lparr>px = 2, py = 2\<rparr>, \<lparr>px = 2, py = - 2\<rparr>]"
proof -
  have "outer_trajectory (buildOuterTrajectory cfg_ex pose_ex st_ex)
      = map (\<lambda>i. if i < 3 then \<lparr>px = rx_list pose_ex ! i, py = ry_list pose_ex ! i\<rparr>
                   else outer_trajectory st_ex ! i) [0 ..< 3]"
    unfolding buildOuterTrajectory_eq by (simp add: ex_cfg ex_st eval_nat_numeral)
  also have "\<dots> = take 3 [\<lparr>px = GetPosX pose_ex, py = GetPosY pose_ex\<rparr>, \<lparr>px = 2, py = 2\<rparr>,
      \<lparr>px = 2, py = - 2\<rparr>, \<lparr>px = 0, py = 0\<rparr>, \<lparr>px = 0, py = 0\<rparr>]"
    by (rule outer_list) simp
  finally show ?thesis by (simp add: pose_ex_def eval_nat_numeral)
qed

lemma ex_segment:
  "line_segment cfg_ex [\<lparr>px = 0, py = 0\<rparr>, \<lparr>px = 2, py = 2\<rparr>, \<lparr>px = 2, py = - 2\<rparr>] i
     \<lparr>inner_trajectory = [a, b, c], tl_size = w\<rparr>
   = \<lparr>inner_trajectory =
        [line_point cfg_ex [\<lparr>px = 0, py = 0\<rparr>, \<lparr>px = 2, py = 2\<rparr>, \<lparr>px = 2, py = - 2\<rparr>] i 0,
         line_point cfg_ex [\<lparr>px = 0, py = 0\<rparr>, \<lparr>px = 2, py = 2\<rparr>, \<lparr>px = 2, py = - 2\<rparr>] i 1, c],
      tl_size = w\<rparr>"
  unfolding line_segment_def ex_cfg by (simp add: eval_nat_numeral)


lemma ex_st_eq: "st_ex =
  \<lparr>mse_outer = 0, mse_inner = 0, outer_index = 0, inner_index = 0, subtraj_index = 0,
   trajectory_updated = False, n_obstacles = 0, obstacle_map_updated = False,
   initialized = False,
   outer_trajectory = [\<lparr>px = 0, py = 0\<rparr>, \<lparr>px = 0, py = 0\<rparr>, \<lparr>px = 0, py = 0\<rparr>],
   full_trajectory =
     [\<lparr>inner_trajectory = [\<lparr>px = 0, py = 0\<rparr>, \<lparr>px = 0, py = 0\<rparr>, \<lparr>px = 0, py = 0\<rparr>], tl_size = 0\<rparr>,
      \<lparr>inner_trajectory = [\<lparr>px = 0, py = 0\<rparr>, \<lparr>px = 0, py = 0\<rparr>, \<lparr>px = 0, py = 0\<rparr>], tl_size = 0\<rparr>,
      \<lparr>inner_trajectory = [\<lparr>px = 0, py = 0\<rparr>, \<lparr>px = 0, py = 0\<rparr>, \<lparr>px = 0, py = 0\<rparr>], tl_size = 0\<rparr>],
   obstacle_map = [\<lparr>loc = \<lparr>px = 0, py = 0\<rparr>\<rparr>, \<lparr>loc = \<lparr>px = 0, py = 0\<rparr>\<rparr>],
   waypoints = (\<lambda>w. \<lparr>px = 0, py = 0\<rparr>),
   nav_goto = None\<rparr>"
  by (simp add: st_ex_def init_state_def cfg_ex_def zero_coor_def eval_nat_numeral)

lemmas tick_eval = periodic_arrival_def checkWaypointArrival_def WaypointX_def WaypointY_def
  POS_FLOAT_OF_BFP_def Let_def periodic_dirty_def periodic_inner_eq periodic_outer_def
  advance_outer_def moveWaypointNext_def moveWaypoint_def waypoint_move_xy_i_def
  updateTrajectory_eq ut_point_def sqrt_lt_half


lemma sqrt_twice_lt: "sqrt x * 2 < 1 \<longleftrightarrow> x < 1 / 4"
proof -
  have "sqrt x * 2 < 1 \<longleftrightarrow> sqrt x < 1 / 2" by linarith
  then show ?thesis by (simp only: sqrt_lt_half)
qed


















lemma ex_z0: "st_z0 = st_ex\<lparr>waypoints := (\<lambda>w. \<lparr>px = 0, py = 0\<rparr>)(WP_INNER := \<lparr>px = 5, py = 5\<rparr>)\<rparr>"
  by (simp add: st_z0_def st_ex_def init_state_def)

lemma ex_init_z: "periodic_init cfg_ex pose_ex st_z0 =
  st_z0\<lparr>outer_trajectory := [\<lparr>px = 0, py = 0\<rparr>, \<lparr>px = 2, py = 2\<rparr>, \<lparr>px = 2, py = - 2\<rparr>],
   full_trajectory :=
     [\<lparr>inner_trajectory = [\<lparr>px = 1, py = 1\<rparr>, \<lparr>px = 2, py = 2\<rparr>, \<lparr>px = 0, py = 0\<rparr>], tl_size = 2\<rparr>,
      \<lparr>inner_trajectory = [\<lparr>px = 2, py = 0\<rparr>, \<lparr>px = 2, py = - 2\<rparr>, \<lparr>px = 0, py = 0\<rparr>], tl_size = 2\<rparr>,
      \<lparr>inner_trajectory = [\<lparr>px = 1, py = - 1\<rparr>, \<lparr>px = 0, py = 0\<rparr>, \<lparr>px = 0, py = 0\<rparr>], tl_size = 2\<rparr>],
   initialized := True\<rparr>"
proof -
  have f: "initialized st_z0 = initialized st_ex" "full_trajectory st_z0 = full_trajectory st_ex"
    "outer_trajectory st_z0 = outer_trajectory st_ex"
    by (simp_all add: ex_z0)
  have a: "\<not> initialized st_z0" "length (full_trajectory st_z0) = nat (OUTER_TRAJECTORY_LENGTH cfg_ex)"
    "OUTER_TRAJECTORY_LENGTH cfg_ex \<le> 256"
    unfolding f by (simp_all add: ex_st ex_cfg)
  have o: "outer_trajectory (buildOuterTrajectory cfg_ex pose_ex st_z0)
      = outer_trajectory (buildOuterTrajectory cfg_ex pose_ex st_ex)"
    unfolding buildOuterTrajectory_eq f by simp
  show ?thesis
    unfolding periodic_init_eq[OF a] o ex_outer ex_cfg f
    by (simp add: upt3 ex_st ex_segment zero_coor_def line_point_def ex_cfg Let_def)
qed

lemma ex_z1: "orange_avoider_periodic cfg_ex opt_zero (pose_at 0 0) st_z0 = st_z1"
proof -
  have p: "pose_at 0 0 = pose_ex" by (simp add: pose_at_def pose_ex_def)
  show ?thesis
    unfolding orange_avoider_periodic_def before_outer_def p ex_init_z
    unfolding ex_z0 ex_st_eq st_z1_def
    by (simp add: tick_eval sqrt_twice_lt cfg_ex_def pose_ex_def opt_zero_def)
qed

lemma ex_z2:
  "waypoints (orange_avoider_periodic cfg_ex opt_zero (pose_at 5 5) st_z1) WP_INNER = \<lparr>px = 0, py = 0\<rparr>"
  "nav_goto (orange_avoider_periodic cfg_ex opt_zero (pose_at 5 5) st_z1) = Some WP_INNER"
  "inner_index (orange_avoider_periodic cfg_ex opt_zero (pose_at 5 5) st_z1) = 0"
  "subtraj_index (orange_avoider_periodic cfg_ex opt_zero (pose_at 5 5) st_z1) = 0"
  "full_trajectory (orange_avoider_periodic cfg_ex opt_zero (pose_at 5 5) st_z1) = full_trajectory st_z1"
proof -
  have i: "initialized st_z1" by (simp add: st_z1_def)
  have "orange_avoider_periodic cfg_ex opt_zero (pose_at 5 5) st_z1 =
      st_z1\<lparr>mse_outer := sqrt 18, mse_inner := 0,
        waypoints := (\<lambda>w. \<lparr>px = 0, py = 0\<rparr>)(WP_INNER := \<lparr>px = 5, py = 5\<rparr>,
           WP_OUTER := \<lparr>px = 2, py = 2\<rparr>, WP_INNER := \<lparr>px = 0, py = 0\<rparr>)\<rparr>"
    unfolding tick_initialized[OF i]
    unfolding st_z1_def
    by (simp add: tick_eval sqrt_twice_lt cfg_ex_def pose_at_def opt_zero_def)
  then show
  "waypoints (orange_avoider_periodic cfg_ex opt_zero (pose_at 5 5) st_z1) WP_INNER = \<lparr>px = 0, py = 0\<rparr>"
  "nav_goto (orange_avoider_periodic cfg_ex opt_zero (pose_at 5 5) st_z1) = Some WP_INNER"
  "inner_index (orange_avoider_periodic cfg_ex opt_zero (pose_at 5 5) st_z1) = 0"
  "subtraj_index (orange_avoider_periodic cfg_ex opt_zero (pose_at 5 5) st_z1) = 0"
  "full_trajectory (orange_avoider_periodic cfg_ex opt_zero (pose_at 5 5) st_z1) = full_trajectory st_z1"
    by (simp_all add: st_z1_def)
qed

lemma periodic_outer_inner_waypoint:
  "waypoints (periodic_outer cfg opt s) WP_INNER = waypoints s WP_INNER"
proof (cases "mse_outer s < 0.5")
  case True
  show ?thesis unfolding periodic_outer_eq[OF True] by (simp add: advance_outer_frame)
next
  case False
  then show ?thesis by (simp add: periodic_outer_def)
qed

lemma tick_inner_waypoint:
  assumes "initialized s" and "\<not> obstacle_map_updated s" and "trajectory_updated s"
      and "checkWaypointArrival q WP_INNER s < 0.5"
  shows "waypoints (orange_avoider_periodic cfg opt q s) WP_INNER =
           inner_trajectory (full_trajectory s ! unat (subtraj_index s)) ! unat (inner_index s)"
    and "nav_goto (orange_avoider_periodic cfg opt q s) = Some WP_INNER"
proof -
  define a where "a = periodic_arrival q s"
  have a: "mse_inner a < 0.5" "trajectory_updated a" "\<not> obstacle_map_updated a"
    "full_trajectory a = full_trajectory s" "subtraj_index a = subtraj_index s"
    "inner_index a = inner_index s"
    using assms
    by (simp_all add: a_def periodic_arrival_def Let_def checkWaypointArrival_def WaypointX_def
        WaypointY_def)
  have d: "periodic_dirty cfg opt a = a" using a(3) by (simp add: periodic_dirty_def)
  show "waypoints (orange_avoider_periodic cfg opt q s) WP_INNER =
           inner_trajectory (full_trajectory s ! unat (subtraj_index s)) ! unat (inner_index s)"
    unfolding tick_initialized[OF assms(1)] a_def[symmetric] d
    using a by (simp add: periodic_outer_inner_waypoint periodic_inner_eq)
  show "nav_goto (orange_avoider_periodic cfg opt q s) = Some WP_INNER"
    by (simp add: orange_avoider_periodic_def)
qed

text \<open>
  C7, as the code has it. When the optimizer answers the size 0, the rebuild accepts it: it
  returns true, the active segment has size 0 and every slot of it holds (0, 0). The flag
  trajectory_updated set from that result is therefore true, not false; on the state so
  obtained the inner block never advances the inner index, and when mse_inner is below 0.5
  it moves the inner waypoint to the slot of the active segment the inner index names. So
  does a whole tick: on that state, when it is initialised and the map is not dirty, a tick
  that finds the vehicle within 0.5 of the inner waypoint moves the inner waypoint to that
  slot of the empty segment and tells the navigation to fly to the inner waypoint.
\<close>

theorem degenerate_rebuild:
  assumes "unat (subtraj_index st) < length (full_trajectory st)"
      and "length (inner_trajectory (full_trajectory st ! unat (subtraj_index st)))
             = nat (INNER_TRAJECTORY_SPACE cfg)"
      and "snd (opt (obstacle_map st)
                  (inner_trajectory (full_trajectory st ! unat (subtraj_index st)))
                  (tl_size (full_trajectory st ! unat (subtraj_index st))) (n_obstacles st)) = 0"
  shows "let r = updateTrajectory cfg opt (unat (subtraj_index st)) st;
             s' = (snd r)\<lparr>trajectory_updated := fst r\<rparr>;
             active = full_trajectory s' ! unat (subtraj_index s');
             next_tick = orange_avoider_periodic cfg opt' q s'
         in fst r = True \<and> trajectory_updated s' \<and> tl_size active = 0
          \<and> (\<forall>i < nat (INNER_TRAJECTORY_SPACE cfg). inner_trajectory active ! i = \<lparr>px = 0, py = 0\<rparr>)
          \<and> inner_index (periodic_inner s') = inner_index s'
          \<and> (mse_inner s' < 0.5 \<longrightarrow>
                waypoints (periodic_inner s') WP_INNER
                  = inner_trajectory active ! unat (inner_index s'))
          \<and> (initialized s' \<and> \<not> obstacle_map_updated s'
               \<and> checkWaypointArrival q WP_INNER s' < 0.5 \<longrightarrow>
                waypoints next_tick WP_INNER = inner_trajectory active ! unat (inner_index s')
              \<and> nav_goto next_tick = Some WP_INNER)"
proof -
  define r where "r = updateTrajectory cfg opt (unat (subtraj_index st)) st"
  define s' where "s' = (snd r)\<lparr>trajectory_updated := fst r\<rparr>"
  define active where "active = full_trajectory s' ! unat (subtraj_index s')"
  define next_tick where "next_tick = orange_avoider_periodic cfg opt' q s'"
  note pts = updateTrajectory_points[OF assms(1) assms(1) assms(2) refl r_def]
  have t: "fst r = True" by (rule pts(1))
  have k: "subtraj_index s' = subtraj_index st" by (simp add: s'_def pts(2))
  have f: "full_trajectory s' = full_trajectory (snd r)" by (simp add: s'_def)
  have sz: "tl_size active = 0"
    unfolding active_def k f pts(3) by (rule assms(3))
  have z: "inner_trajectory active ! i = \<lparr>px = 0, py = 0\<rparr>"
    if "i < nat (INNER_TRAJECTORY_SPACE cfg)" for i
    unfolding active_def k f pts(5)[OF that] assms(3) by simp
  have u: "trajectory_updated s'" by (simp add: s'_def t)
  have neg: "\<not> uint (inner_index s') < - 1"
    using uint_ge_0[of "inner_index s'"] by linarith
  have ii: "inner_index (periodic_inner s') = inner_index s'"
    unfolding periodic_inner_eq using sz neg by (simp add: active_def)
  have w: "waypoints (periodic_inner s') WP_INNER = inner_trajectory active ! unat (inner_index s')"
    if "mse_inner s' < 0.5"
    unfolding periodic_inner_eq using that u by (simp add: active_def)
  have n: "waypoints next_tick WP_INNER = inner_trajectory active ! unat (inner_index s')
         \<and> nav_goto next_tick = Some WP_INNER"
    if "initialized s'" "\<not> obstacle_map_updated s'" "checkWaypointArrival q WP_INNER s' < 0.5"
    unfolding next_tick_def active_def
    using tick_inner_waypoint[OF that(1,2) u that(3)] by simp
  show ?thesis
    unfolding Let_def r_def[symmetric] s'_def[symmetric] active_def[symmetric]
      next_tick_def[symmetric]
    using t u sz z ii w n by blast
qed

text \<open>
  On the state after the first tick of the example session, rebuilt with the optimizer that
  answers the size 0: the rebuild is true and the inner block moves the inner waypoint to
  (0, 0). On the state after a first tick with that optimizer, whose inner waypoint is at
  (5, 5), the rebuild changes nothing, and a tick with the vehicle at (5, 5) moves the
  inner waypoint to (0, 0).
\<close>

theorem degenerate_rebuild_witness:
  "(unat (subtraj_index st_t1) < length (full_trajectory st_t1)
   \<and> length (inner_trajectory (full_trajectory st_t1 ! unat (subtraj_index st_t1)))
        = nat (INNER_TRAJECTORY_SPACE cfg_ex)
   \<and> snd (opt_zero (obstacle_map st_t1)
             (inner_trajectory (full_trajectory st_t1 ! unat (subtraj_index st_t1)))
             (tl_size (full_trajectory st_t1 ! unat (subtraj_index st_t1))) (n_obstacles st_t1)) = 0
   \<and> mse_inner ((snd (updateTrajectory cfg_ex opt_zero (unat (subtraj_index st_t1)) st_t1))
         \<lparr>trajectory_updated := fst (updateTrajectory cfg_ex opt_zero (unat (subtraj_index st_t1)) st_t1)\<rparr>) < 0.5
   \<and> fst (updateTrajectory cfg_ex opt_zero (unat (subtraj_index st_t1)) st_t1) = True
   \<and> waypoints (periodic_inner
         ((snd (updateTrajectory cfg_ex opt_zero (unat (subtraj_index st_t1)) st_t1))
         \<lparr>trajectory_updated := fst (updateTrajectory cfg_ex opt_zero (unat (subtraj_index st_t1)) st_t1)\<rparr>))
        WP_INNER = \<lparr>px = 0, py = 0\<rparr>)
   \<and> (unat (subtraj_index st_z1) < length (full_trajectory st_z1)
   \<and> length (inner_trajectory (full_trajectory st_z1 ! unat (subtraj_index st_z1)))
        = nat (INNER_TRAJECTORY_SPACE cfg_ex)
   \<and> snd (opt_zero (obstacle_map st_z1)
             (inner_trajectory (full_trajectory st_z1 ! unat (subtraj_index st_z1)))
             (tl_size (full_trajectory st_z1 ! unat (subtraj_index st_z1))) (n_obstacles st_z1)) = 0
   \<and> (snd (updateTrajectory cfg_ex opt_zero (unat (subtraj_index st_z1)) st_z1))
         \<lparr>trajectory_updated := fst (updateTrajectory cfg_ex opt_zero (unat (subtraj_index st_z1)) st_z1)\<rparr>
       = st_z1
   \<and> initialized st_z1 \<and> \<not> obstacle_map_updated st_z1
   \<and> checkWaypointArrival (pose_at 5 5) WP_INNER st_z1 < 0.5
   \<and> waypoints st_z1 WP_INNER = \<lparr>px = 5, py = 5\<rparr>
   \<and> waypoints (orange_avoider_periodic cfg_ex opt_zero (pose_at 5 5) st_z1) WP_INNER
        = \<lparr>px = 0, py = 0\<rparr>
   \<and> nav_goto (orange_avoider_periodic cfg_ex opt_zero (pose_at 5 5) st_z1) = Some WP_INNER)"
proof -
  have A: "unat (subtraj_index st_t1) < length (full_trajectory st_t1)
   \<and> length (inner_trajectory (full_trajectory st_t1 ! unat (subtraj_index st_t1)))
        = nat (INNER_TRAJECTORY_SPACE cfg_ex)
   \<and> snd (opt_zero (obstacle_map st_t1)
             (inner_trajectory (full_trajectory st_t1 ! unat (subtraj_index st_t1)))
             (tl_size (full_trajectory st_t1 ! unat (subtraj_index st_t1))) (n_obstacles st_t1)) = 0
   \<and> mse_inner ((snd (updateTrajectory cfg_ex opt_zero (unat (subtraj_index st_t1)) st_t1))
         \<lparr>trajectory_updated := fst (updateTrajectory cfg_ex opt_zero (unat (subtraj_index st_t1)) st_t1)\<rparr>) < 0.5
   \<and> fst (updateTrajectory cfg_ex opt_zero (unat (subtraj_index st_t1)) st_t1) = True
   \<and> waypoints (periodic_inner
         ((snd (updateTrajectory cfg_ex opt_zero (unat (subtraj_index st_t1)) st_t1))
         \<lparr>trajectory_updated := fst (updateTrajectory cfg_ex opt_zero (unat (subtraj_index st_t1)) st_t1)\<rparr>))
        WP_INNER = \<lparr>px = 0, py = 0\<rparr>"
  proof -
    let ?r = "updateTrajectory cfg_ex opt_zero (unat (subtraj_index st_t1)) st_t1"
    let ?s = "(snd ?r)\<lparr>trajectory_updated := fst ?r\<rparr>"
    have h: "unat (subtraj_index st_t1) < length (full_trajectory st_t1)"
      "length (inner_trajectory (full_trajectory st_t1 ! unat (subtraj_index st_t1)))
          = nat (INNER_TRAJECTORY_SPACE cfg_ex)"
      "snd (opt_zero (obstacle_map st_t1)
               (inner_trajectory (full_trajectory st_t1 ! unat (subtraj_index st_t1)))
               (tl_size (full_trajectory st_t1 ! unat (subtraj_index st_t1))) (n_obstacles st_t1)) = 0"
      by (simp_all add: st_t1_def ex_cfg opt_zero_def)
    obtain ft where "?r = (True, st_t1\<lparr>full_trajectory := ft\<rparr>)"
      using updateTrajectory_only_ft by blast
    then have m: "mse_inner ?s < 0.5" "unat (inner_index ?s) = 0"
      by (simp_all add: st_t1_def)
    note d = degenerate_rebuild[where opt = opt_zero and st = st_t1 and cfg = cfg_ex
        and opt' = opt_zero and q = "pose_at 0 0", OF h,
        unfolded Let_def]
    from d have d1: "fst ?r = True" by blast
    from d m(1) have "waypoints (periodic_inner ?s) WP_INNER
        = inner_trajectory (full_trajectory ?s ! unat (subtraj_index ?s)) ! unat (inner_index ?s)"
      by blast
    also from d have "\<dots> = \<lparr>px = 0, py = 0\<rparr>"
      unfolding m(2) ex_cfg by simp
    finally show ?thesis using h m(1) d1 by blast
  qed
  have B: "unat (subtraj_index st_z1) < length (full_trajectory st_z1)
   \<and> length (inner_trajectory (full_trajectory st_z1 ! unat (subtraj_index st_z1)))
        = nat (INNER_TRAJECTORY_SPACE cfg_ex)
   \<and> snd (opt_zero (obstacle_map st_z1)
             (inner_trajectory (full_trajectory st_z1 ! unat (subtraj_index st_z1)))
             (tl_size (full_trajectory st_z1 ! unat (subtraj_index st_z1))) (n_obstacles st_z1)) = 0
   \<and> (snd (updateTrajectory cfg_ex opt_zero (unat (subtraj_index st_z1)) st_z1))
         \<lparr>trajectory_updated := fst (updateTrajectory cfg_ex opt_zero (unat (subtraj_index st_z1)) st_z1)\<rparr>
       = st_z1
   \<and> initialized st_z1 \<and> \<not> obstacle_map_updated st_z1
   \<and> checkWaypointArrival (pose_at 5 5) WP_INNER st_z1 < 0.5
   \<and> waypoints st_z1 WP_INNER = \<lparr>px = 5, py = 5\<rparr>
   \<and> waypoints (orange_avoider_periodic cfg_ex opt_zero (pose_at 5 5) st_z1) WP_INNER
        = \<lparr>px = 0, py = 0\<rparr>
   \<and> nav_goto (orange_avoider_periodic cfg_ex opt_zero (pose_at 5 5) st_z1) = Some WP_INNER"
  proof -
    let ?r = "updateTrajectory cfg_ex opt_zero (unat (subtraj_index st_z1)) st_z1"
    let ?s = "(snd ?r)\<lparr>trajectory_updated := fst ?r\<rparr>"
    have h: "unat (subtraj_index st_z1) < length (full_trajectory st_z1)"
      "length (inner_trajectory (full_trajectory st_z1 ! unat (subtraj_index st_z1)))
          = nat (INNER_TRAJECTORY_SPACE cfg_ex)"
      "snd (opt_zero (obstacle_map st_z1)
               (inner_trajectory (full_trajectory st_z1 ! unat (subtraj_index st_z1)))
               (tl_size (full_trajectory st_z1 ! unat (subtraj_index st_z1))) (n_obstacles st_z1)) = 0"
      by (simp_all add: st_z1_def ex_cfg opt_zero_def)
    have s: "?s = st_z1"
      unfolding updateTrajectory_eq[OF h(1)]
      by (simp add: st_z1_def ex_cfg opt_zero_def ut_point_def upt3 Let_def)
    have m: "initialized st_z1" "\<not> obstacle_map_updated st_z1"
      "checkWaypointArrival (pose_at 5 5) WP_INNER st_z1 < 0.5"
      "waypoints st_z1 WP_INNER = \<lparr>px = 5, py = 5\<rparr>"
      "unat (inner_index st_z1) = 0"
      by (simp_all add: st_z1_def checkWaypointArrival_def WaypointX_def WaypointY_def
          POS_FLOAT_OF_BFP_def pose_at_def)
    note d = degenerate_rebuild[where opt = opt_zero and st = st_z1 and cfg = cfg_ex
        and opt' = opt_zero and q = "pose_at 5 5", OF h, unfolded Let_def s]
    from d m(1,2,3) have w: "waypoints (orange_avoider_periodic cfg_ex opt_zero (pose_at 5 5) st_z1) WP_INNER
        = inner_trajectory (full_trajectory st_z1 ! unat (subtraj_index st_z1)) ! unat (inner_index st_z1)"
      "nav_goto (orange_avoider_periodic cfg_ex opt_zero (pose_at 5 5) st_z1) = Some WP_INNER"
      by blast+
    from d have z: "inner_trajectory (full_trajectory st_z1 ! unat (subtraj_index st_z1)) ! unat (inner_index st_z1)
        = \<lparr>px = 0, py = 0\<rparr>"
      unfolding m(5) ex_cfg by simp
    show ?thesis using h s m(1,2,3,4) w z by simp
  qed
  show ?thesis by (rule conjI[OF A B])
qed

text \<open>
  The claim as stated fails: with the optimizer that answers the size 0, after the first tick
  the active segment has size 0 and trajectory_updated is true; the inner waypoint is at
  (5, 5); a second tick with the vehicle at (5, 5) moves the inner waypoint to slot 0 of that
  empty segment, (0, 0), and tells the navigation to fly to it.
\<close>

theorem degenerate_not_ready_counterexample:
  "tl_size (full_trajectory (run cfg_ex opt_zero st_z0 [Tick (pose_at 0 0)])
      ! unat (subtraj_index (run cfg_ex opt_zero st_z0 [Tick (pose_at 0 0)]))) = 0
   \<and> trajectory_updated (run cfg_ex opt_zero st_z0 [Tick (pose_at 0 0)])
   \<and> waypoints (run cfg_ex opt_zero st_z0 [Tick (pose_at 0 0)]) WP_INNER = \<lparr>px = 5, py = 5\<rparr>
   \<and> waypoints (run cfg_ex opt_zero st_z0 [Tick (pose_at 0 0), Tick (pose_at 5 5)]) WP_INNER
       = inner_trajectory (full_trajectory (run cfg_ex opt_zero st_z0 [Tick (pose_at 0 0)])
           ! unat (subtraj_index (run cfg_ex opt_zero st_z0 [Tick (pose_at 0 0)])))
         ! unat (inner_index (run cfg_ex opt_zero st_z0 [Tick (pose_at 0 0)]))
   \<and> waypoints (run cfg_ex opt_zero st_z0 [Tick (pose_at 0 0), Tick (pose_at 5 5)]) WP_INNER
       = \<lparr>px = 0, py = 0\<rparr>
   \<and> nav_goto (run cfg_ex opt_zero st_z0 [Tick (pose_at 0 0), Tick (pose_at 5 5)]) = Some WP_INNER"
proof -
  have 1: "run cfg_ex opt_zero st_z0 [Tick (pose_at 0 0)] = st_z1"
    by (simp add: run_def ex_z1)
  have 2: "run cfg_ex opt_zero st_z0 [Tick (pose_at 0 0), Tick (pose_at 5 5)]
      = orange_avoider_periodic cfg_ex opt_zero (pose_at 5 5) st_z1"
    by (simp add: run_def ex_z1)
  show ?thesis
    unfolding 1 2 ex_z2 by (simp add: st_z1_def)
qed

text \<open>
  In the example configuration (three outer points, two inner points per segment) and a
  first tick at the origin, the last segment runs from (2, -2) back to (0, 0): its first
  point is (1, -1) and its second point is one step of (-1, 1) further.
\<close>

theorem inner_trajectory_initial_witness:
  "\<not> initialized st_ex
   \<and> length (full_trajectory st_ex) = nat (OUTER_TRAJECTORY_LENGTH cfg_ex)
   \<and> OUTER_TRAJECTORY_LENGTH cfg_ex \<le> 256
   \<and> INNER_TRAJECTORY_LENGTH cfg_ex \<le> 255
   \<and> (2::nat) < nat (OUTER_TRAJECTORY_LENGTH cfg_ex)
   \<and> nat (INNER_TRAJECTORY_LENGTH cfg_ex) \<le> length (inner_trajectory (full_trajectory st_ex ! 2))
   \<and> (1::nat) \<le> 1 \<and> (1::nat) \<le> nat (INNER_TRAJECTORY_LENGTH cfg_ex)
   \<and> outer_trajectory (periodic_init cfg_ex pose_ex st_ex) ! 2 = \<lparr>px = 2, py = - 2\<rparr>
   \<and> outer_trajectory (periodic_init cfg_ex pose_ex st_ex) ! 0 = \<lparr>px = 0, py = 0\<rparr>
   \<and> uint (tl_size (full_trajectory (periodic_init cfg_ex pose_ex st_ex) ! 2)) = 2
   \<and> px (inner_trajectory (full_trajectory (periodic_init cfg_ex pose_ex st_ex) ! 2) ! 0) = 1
   \<and> py (inner_trajectory (full_trajectory (periodic_init cfg_ex pose_ex st_ex) ! 2) ! 0) = - 1
   \<and> px (inner_trajectory (full_trajectory (periodic_init cfg_ex pose_ex st_ex) ! 2) ! 1)
       - px (inner_trajectory (full_trajectory (periodic_init cfg_ex pose_ex st_ex) ! 2) ! 0) = - 1"
proof -
  have h: "\<not> initialized st_ex"
    "length (full_trajectory st_ex) = nat (OUTER_TRAJECTORY_LENGTH cfg_ex)"
    "OUTER_TRAJECTORY_LENGTH cfg_ex \<le> 256"
    "INNER_TRAJECTORY_LENGTH cfg_ex \<le> 255"
    "(2::nat) < nat (OUTER_TRAJECTORY_LENGTH cfg_ex)"
    "nat (INNER_TRAJECTORY_LENGTH cfg_ex) \<le> length (inner_trajectory (full_trajectory st_ex ! 2))"
    "(1::nat) \<le> 1" "(1::nat) \<le> nat (INNER_TRAJECTORY_LENGTH cfg_ex)"
    by (simp_all add: ex_st ex_cfg)
  have o: "outer_trajectory (periodic_init cfg_ex pose_ex st_ex)
      = [\<lparr>px = 0, py = 0\<rparr>, \<lparr>px = 2, py = 2\<rparr>, \<lparr>px = 2, py = - 2\<rparr>]"
    unfolding periodic_init_outer[OF h(1)] using ex_outer
    unfolding buildOuterTrajectory_eq by simp
  have o2: "outer_trajectory (periodic_init cfg_ex pose_ex st_ex) ! 2 = \<lparr>px = 2, py = - 2\<rparr>"
    "outer_trajectory (periodic_init cfg_ex pose_ex st_ex) ! 0 = \<lparr>px = 0, py = 0\<rparr>"
    unfolding o by simp_all
  note t = inner_trajectory_initial[OF h, of pose_ex, unfolded Let_def]
  from t have r: "uint (tl_size (full_trajectory (periodic_init cfg_ex pose_ex st_ex) ! 2)) = 2
   \<and> px (inner_trajectory (full_trajectory (periodic_init cfg_ex pose_ex st_ex) ! 2) ! 0) = 1
   \<and> py (inner_trajectory (full_trajectory (periodic_init cfg_ex pose_ex st_ex) ! 2) ! 0) = - 1
   \<and> px (inner_trajectory (full_trajectory (periodic_init cfg_ex pose_ex st_ex) ! 2) ! 1)
       - px (inner_trajectory (full_trajectory (periodic_init cfg_ex pose_ex st_ex) ! 2) ! 0) = - 1"
    by (simp add: ex_cfg o)
  show ?thesis using h o2 r by blast
qed


end
